theory Spec2Isabelle
  imports Main "HOL-Library.Word"
begin

section \<open>Return codes, structures and memory\<close>

text \<open>
  The return codes of the library. Their numeric values live in \<^verbatim>\<open>smiol.h\<close>; what the
  code in \<^verbatim>\<open>smiol.c\<close> fixes is that the six codes are pairwise distinct integers: they
  are the \<^verbatim>\<open>case\<close> labels of one \<^verbatim>\<open>switch\<close> in \<^verbatim>\<open>SMIOL_error_string\<close>.
\<close>

datatype smiol_code =
    SMIOL_SUCCESS
  | SMIOL_MALLOC_FAILURE
  | SMIOL_INVALID_ARGUMENT
  | SMIOL_MPI_ERROR
  | SMIOL_FORTRAN_ERROR
  | SMIOL_LIBRARY_ERROR

text \<open>
  Modelled from the spec: the type \<^verbatim>\<open>SMIOL_Offset\<close> is declared in \<^verbatim>\<open>smiol_types.h\<close>, which
  is not among the source files; section 4.1 of the specification makes it a signed
  64-bit offset. A word is read as signed with \<^const>\<open>sint\<close>.
\<close>

type_synonym SMIOL_Offset = "64 word"

text \<open>Addresses are natural numbers; a pointer is an \<open>addr option\<close>, \<open>None\<close> being \<^verbatim>\<open>NULL\<close>.\<close>

type_synonym addr = nat

text \<open>
  The three structures are declared in \<^verbatim>\<open>smiol_types.h\<close> as well. The records hold the
  fields that \<^verbatim>\<open>smiol.c\<close> reads and writes, with the types of the expressions it assigns
  to them: \<^verbatim>\<open>int\<close> for the communicator, ranks and library codes, \<^verbatim>\<open>SMIOL_Offset\<close> for the
  frame, \<^verbatim>\<open>size_t\<close> (a natural number) for \<^verbatim>\<open>io_start\<close> and \<^verbatim>\<open>io_count\<close>. \<^verbatim>\<open>lib_type\<close>
  holds one of the constants that name a library.
\<close>

datatype lib_kind = SMIOL_LIBRARY_UNKNOWN | SMIOL_LIBRARY_PNETCDF

record SMIOL_context =
  fcomm :: int
  comm_size :: int
  comm_rank :: int
  lib_ierr :: int
  lib_type :: lib_kind

record SMIOL_file =
  file_context :: "addr option"
  frame :: SMIOL_Offset
  state :: int
  ncidp :: int

record SMIOL_decomp =
  comp_list :: "addr option"
  io_list :: "addr option"
  io_start :: nat
  io_count :: nat

text \<open>
  The heap maps the address of every live allocation to its contents. What C leaves
  undefined (a dereference of \<^verbatim>\<open>NULL\<close> or of a pointer to no live object of the right
  type, \<^verbatim>\<open>free\<close> of such a pointer, an access past the end of a buffer, a read of
  a variable never written) is a \<open>fault\<close>.
\<close>

datatype block =
    Context_block SMIOL_context
  | File_block SMIOL_file
  | Decomp_block SMIOL_decomp
  | Offset_block "SMIOL_Offset list"

type_synonym heap = "addr \<Rightarrow> block option"

datatype fault = Null_dereference | Invalid_pointer | Out_of_bounds | Uninitialised_read

text \<open>\<^verbatim>\<open>free(p)\<close>: nothing for \<^verbatim>\<open>NULL\<close>, the block is released when \<open>p\<close> is live.\<close>

definition free_ptr :: "heap \<Rightarrow> addr option \<Rightarrow> fault + heap" where
  "free_ptr h p =
     (case p of
        None \<Rightarrow> Inr h
      | Some a \<Rightarrow> (case h a of None \<Rightarrow> Inl Invalid_pointer | Some b \<Rightarrow> Inr (h(a := None))))"

text \<open>Reading a structure through a pointer.\<close>

definition deref_context :: "heap \<Rightarrow> addr option \<Rightarrow> fault + SMIOL_context" where
  "deref_context h p =
     (case p of
        None \<Rightarrow> Inl Null_dereference
      | Some a \<Rightarrow> (case h a of Some (Context_block c) \<Rightarrow> Inr c | _ \<Rightarrow> Inl Invalid_pointer))"

definition deref_file :: "heap \<Rightarrow> addr option \<Rightarrow> fault + SMIOL_file" where
  "deref_file h p =
     (case p of
        None \<Rightarrow> Inl Null_dereference
      | Some a \<Rightarrow> (case h a of Some (File_block f) \<Rightarrow> Inr f | _ \<Rightarrow> Inl Invalid_pointer))"

definition deref_decomp :: "heap \<Rightarrow> addr option \<Rightarrow> fault + SMIOL_decomp" where
  "deref_decomp h p =
     (case p of
        None \<Rightarrow> Inl Null_dereference
      | Some a \<Rightarrow> (case h a of Some (Decomp_block d) \<Rightarrow> Inr d | _ \<Rightarrow> Inl Invalid_pointer))"

section \<open>The environment of the file functions\<close>

text \<open>
  The file functions do their work under \<^verbatim>\<open>#ifdef SMIOL_PNETCDF\<close>, through the
  parallel-netCDF library and \<^verbatim>\<open>transfer_field\<close>. Neither is part of the sources; both
  are functions of the environment below, and \<open>pnetcdf\<close> says whether the library was
  built with \<^verbatim>\<open>SMIOL_PNETCDF\<close>. A library function yields
  \<open>Inl ierr\<close> for a return value \<open>ierr\<close> other than \<^verbatim>\<open>NC_NOERR\<close> and \<open>Inr\<close> of its output
  otherwise (\<open>Some ierr\<close> and \<open>None\<close> for a function without output).

  The contents of the data buffers are opaque to this layer. A buffer is named by its
  role: the caller's \<^verbatim>\<open>buf\<close> or the local \<^verbatim>\<open>io_buf\<close>. The calls that move data are recorded,
  in order, as a trace of events.
\<close>

datatype nc_type = NC_FLOAT | NC_DOUBLE | NC_INT | NC_CHAR | NC_OTHER

datatype smiol_vartype = SMIOL_REAL32 | SMIOL_REAL64 | SMIOL_INT32 | SMIOL_CHAR | SMIOL_UNKNOWN_VAR_TYPE

datatype direction = SMIOL_COMP_TO_IO | SMIOL_IO_TO_COMP

datatype buffer = Caller_buf | Io_buf

text \<open>
  \<open>Transfer_field decomp dir element_size in out\<close>;
  \<open>Put_vara_all ncid varid start count data\<close>;
  \<open>Get_vara_all ncid varid start count data\<close>.
\<close>

datatype event =
    Transfer_field addr direction nat buffer buffer
  | Put_vara_all int int "nat list" "nat list" buffer
  | Get_vara_all int int "nat list" "nat list" buffer

record file_env =
  pnetcdf :: bool
  size_t_bytes :: nat
  sizeof_float :: nat
  sizeof_double :: nat
  sizeof_int :: nat
  dimids_malloc_ok :: "nat \<Rightarrow> bool"
  ncmpi_inq_varid :: "int \<Rightarrow> string \<Rightarrow> int + int"
  ncmpi_inq_vartype :: "int \<Rightarrow> int \<Rightarrow> int + nc_type"
  ncmpi_inq_varndims :: "int \<Rightarrow> int \<Rightarrow> int + int"
  ncmpi_inq_vardimid :: "int \<Rightarrow> int \<Rightarrow> int + (nat \<Rightarrow> int)"
  ncmpi_inq_dimname :: "int \<Rightarrow> int \<Rightarrow> int + string"
  ncmpi_inq_dimid :: "int \<Rightarrow> string \<Rightarrow> int + int"
  ncmpi_inq_dimlen :: "int \<Rightarrow> int \<Rightarrow> int + SMIOL_Offset"
  ncmpi_inq_unlimdim :: "int \<Rightarrow> int + int"
  ncmpi_enddef :: "int \<Rightarrow> int option"
  ncmpi_close :: "int \<Rightarrow> int option"
  ncmpi_put_vara_all :: "int \<Rightarrow> int \<Rightarrow> nat list \<Rightarrow> nat list \<Rightarrow> buffer \<Rightarrow> int option"
  ncmpi_get_vara_all :: "int \<Rightarrow> int \<Rightarrow> nat list \<Rightarrow> nat list \<Rightarrow> buffer \<Rightarrow> int option"
  transfer_field :: "heap \<Rightarrow> addr \<Rightarrow> direction \<Rightarrow> nat \<Rightarrow> buffer \<Rightarrow> buffer \<Rightarrow> smiol_code"

section \<open>Releasing handles\<close>

text \<open>
  A parameter of type \<^verbatim>\<open>T **\<close> is an \<open>addr option option\<close>: \<open>None\<close> is a null outer
  pointer, \<open>Some p\<close> an outer pointer to a variable of the caller that holds the pointer
  \<open>p\<close>. The functions return the code, the heap and the caller's variable after the call.

  \<^verbatim>\<open>int SMIOL_free_decomp(struct SMIOL_decomp **decomp)\<close> reads \<^verbatim>\<open>*decomp\<close> in its first
  statement; each \<^verbatim>\<open>(*decomp)->...\<close> is a read of the heap as it is at that statement.
\<close>

definition SMIOL_free_decomp :: "heap \<Rightarrow> addr option option \<Rightarrow> fault + (smiol_code \<times> heap \<times> addr option option)" where
  "SMIOL_free_decomp h decomp =
     (case decomp of
        None \<Rightarrow> Inl Null_dereference
      | Some None \<Rightarrow> Inr (SMIOL_SUCCESS, h, Some None)
      | Some (Some a) \<Rightarrow>
          (case deref_decomp h (Some a) of Inl e \<Rightarrow> Inl e | Inr d \<Rightarrow>
          (case free_ptr h (comp_list d) of Inl e \<Rightarrow> Inl e | Inr h1 \<Rightarrow>
          (case deref_decomp h1 (Some a) of Inl e \<Rightarrow> Inl e | Inr d1 \<Rightarrow>
          (case free_ptr h1 (io_list d1) of Inl e \<Rightarrow> Inl e | Inr h2 \<Rightarrow>
          (case free_ptr h2 (Some a) of Inl e \<Rightarrow> Inl e | Inr h3 \<Rightarrow>
             Inr (SMIOL_SUCCESS, h3, Some None)))))))"

text \<open>
  \<^verbatim>\<open>int SMIOL_finalize(struct SMIOL_context **context)\<close>. \<open>comm_free\<close> stands for
  \<^verbatim>\<open>MPI_Comm_free\<close> on the communicator of the context: whether it returns
  \<^verbatim>\<open>MPI_SUCCESS\<close>.
\<close>

definition SMIOL_finalize :: "(int \<Rightarrow> bool) \<Rightarrow> heap \<Rightarrow> addr option option \<Rightarrow> fault + (smiol_code \<times> heap \<times> addr option option)" where
  "SMIOL_finalize comm_free h cntxt =
     (case cntxt of
        None \<Rightarrow> Inr (SMIOL_SUCCESS, h, None)
      | Some None \<Rightarrow> Inr (SMIOL_SUCCESS, h, Some None)
      | Some (Some a) \<Rightarrow>
          (case deref_context h (Some a) of Inl e \<Rightarrow> Inl e | Inr c \<Rightarrow>
             if comm_free (fcomm c)
             then (case free_ptr h (Some a) of Inl e \<Rightarrow> Inl e | Inr h1 \<Rightarrow>
                     Inr (SMIOL_SUCCESS, h1, Some None))
             else (case free_ptr h (Some a) of Inl e \<Rightarrow> Inl e | Inr h1 \<Rightarrow>
                     Inr (SMIOL_MPI_ERROR, h1, Some None))))"

text \<open>
  \<^verbatim>\<open>int SMIOL_close_file(struct SMIOL_file **file)\<close>.
\<close>

definition SMIOL_close_file :: "file_env \<Rightarrow> heap \<Rightarrow> addr option option \<Rightarrow> fault + (smiol_code \<times> heap \<times> addr option option)" where
  "SMIOL_close_file be h file =
     (case file of
        None \<Rightarrow> Inr (SMIOL_SUCCESS, h, None)
      | Some p \<Rightarrow>
          if pnetcdf be then
            (case deref_file h p of Inl e \<Rightarrow> Inl e | Inr f \<Rightarrow>
               (case ncmpi_close be (ncidp f) of
                  Some ierr \<Rightarrow>
                    (case file_context f of None \<Rightarrow> Inl Null_dereference | Some ca \<Rightarrow>
                    (case deref_context h (Some ca) of Inl e \<Rightarrow> Inl e | Inr c \<Rightarrow>
                    (case free_ptr
                            (h(ca \<mapsto> Context_block (c\<lparr>lib_type := SMIOL_LIBRARY_PNETCDF, lib_ierr := ierr\<rparr>)))
                            p of
                       Inl e \<Rightarrow> Inl e
                     | Inr h1 \<Rightarrow> Inr (SMIOL_LIBRARY_ERROR, h1, Some None))))
                | None \<Rightarrow>
                    (case free_ptr h p of Inl e \<Rightarrow> Inl e | Inr h1 \<Rightarrow>
                       Inr (SMIOL_SUCCESS, h1, Some None))))
          else
            (case free_ptr h p of Inl e \<Rightarrow> Inl e | Inr h1 \<Rightarrow>
               Inr (SMIOL_SUCCESS, h1, Some None)))"

section \<open>Record frames\<close>

text \<open>
  \<^verbatim>\<open>int SMIOL_set_frame(struct SMIOL_file *file, SMIOL_Offset frame)\<close>.
  The result is the return code and the heap after the call.
\<close>

definition SMIOL_set_frame :: "heap \<Rightarrow> addr option \<Rightarrow> SMIOL_Offset \<Rightarrow> fault + (smiol_code \<times> heap)" where
  "SMIOL_set_frame h file v =
     (case file of
        None \<Rightarrow> Inr (SMIOL_INVALID_ARGUMENT, h)
      | Some a \<Rightarrow>
          (case h a of
             Some (File_block f) \<Rightarrow> Inr (SMIOL_SUCCESS, h(a \<mapsto> File_block (f\<lparr>frame := v\<rparr>)))
           | _ \<Rightarrow> Inl Invalid_pointer))"

text \<open>
  \<^verbatim>\<open>int SMIOL_get_frame(struct SMIOL_file *file, SMIOL_Offset *frame)\<close>.
  The out-parameter is \<open>None\<close> for \<^verbatim>\<open>NULL\<close> and \<open>Some w\<close> for a pointer to a variable
  that holds \<open>w\<close>; the result carries the out-parameter after the call. The heap is only
  read.
\<close>

definition SMIOL_get_frame :: "heap \<Rightarrow> addr option \<Rightarrow> SMIOL_Offset option \<Rightarrow> fault + (smiol_code \<times> SMIOL_Offset option)" where
  "SMIOL_get_frame h file out =
     (case file of
        None \<Rightarrow> Inr (SMIOL_INVALID_ARGUMENT, out)
      | Some a \<Rightarrow>
          (case out of
             None \<Rightarrow> Inr (SMIOL_INVALID_ARGUMENT, out)
           | Some w \<Rightarrow>
               (case h a of
                  Some (File_block f) \<Rightarrow> Inr (SMIOL_SUCCESS, Some (frame f))
                | _ \<Rightarrow> Inl Invalid_pointer)))"

text \<open>A table pointer of a handle is in order when it is null or points to a live block
  other than the handle itself.\<close>

definition table_ok :: "heap \<Rightarrow> addr \<Rightarrow> addr option \<Rightarrow> bool" where
  "table_ok h a t = (case t of None \<Rightarrow> True | Some x \<Rightarrow> x \<noteq> a \<and> h x \<noteq> None)"

section \<open>The I/O partitioner\<close>

text \<open>
  Modelled from the spec: \<^verbatim>\<open>get_io_elements\<close> is declared in \<^verbatim>\<open>smiol_utils.h\<close> and
  called by \<^verbatim>\<open>SMIOL_create_decomp\<close>, but its body is not among the source files.
  The definitions of this section follow section 4.2 of the specification word for word.
  The group size is an argument of its own here: the specification's failure condition
  speaks of it, while the declared C function receives the rank only.

  An I/O rank is a rank \<open>r\<close> with \<open>0 \<le> r < num_io_tasks * io_stride\<close>,
  \<open>r mod io_stride = 0\<close> and \<open>r / io_stride < num_io_tasks\<close>.
\<close>

definition is_io_rank :: "int \<Rightarrow> int \<Rightarrow> int \<Rightarrow> bool" where
  "is_io_rank r num_io_tasks io_stride =
     (0 \<le> r \<and> r < num_io_tasks * io_stride \<and> r mod io_stride = 0 \<and> r div io_stride < num_io_tasks)"

text \<open>
  Modelled from the spec: the size of the \<open>k\<close>-th block. The first
  \<open>n_global mod num_io_tasks\<close> I/O ranks receive the quotient rounded up, the rest the
  quotient rounded down.
\<close>

definition io_block :: "nat \<Rightarrow> nat \<Rightarrow> nat \<Rightarrow> nat" where
  "io_block n_global num_io_tasks k =
     (if k < n_global mod num_io_tasks
      then (n_global + num_io_tasks - 1) div num_io_tasks
      else n_global div num_io_tasks)"

text \<open>
  Modelled from the spec: \<open>io_elements(rank, num_io_tasks, io_stride, n_global)\<close>. It fails
  with \<open>SMIOL_INVALID_ARGUMENT\<close> when \<open>num_io_tasks \<le> 0\<close>, \<open>io_stride \<le> 0\<close> or
  \<open>num_io_tasks * io_stride\<close> exceeds the group size; a rank that is no I/O rank gets
  \<open>(0, 0)\<close>; the \<open>k\<close>-th I/O rank gets its block, starting at the sum of the preceding
  blocks.
\<close>

definition io_elements :: "int \<Rightarrow> int \<Rightarrow> int \<Rightarrow> int \<Rightarrow> nat \<Rightarrow> smiol_code + (nat \<times> nat)" where
  "io_elements group_size r num_io_tasks io_stride n_global =
     (if num_io_tasks \<le> 0 \<or> io_stride \<le> 0 \<or> group_size < num_io_tasks * io_stride
      then Inl SMIOL_INVALID_ARGUMENT
      else if is_io_rank r num_io_tasks io_stride
      then Inr (sum_list (map (io_block n_global (nat num_io_tasks)) [0..<nat (r div io_stride)]),
                io_block n_global (nat num_io_tasks) (nat (r div io_stride)))
      else Inr (0, 0))"

text \<open>
  Modelled from the spec: the same partitioner behind the C interface of
  \<^verbatim>\<open>get_io_elements\<close>, a return code and the two out-parameters. When the partitioner
  fails the specification says nothing about \<^verbatim>\<open>*io_start\<close> and \<^verbatim>\<open>*io_count\<close>; \<open>left\<close> is
  what the caller's variables hold then.
\<close>

definition spec_get_io_elements :: "int \<Rightarrow> nat \<times> nat \<Rightarrow> int \<Rightarrow> int \<Rightarrow> int \<Rightarrow> nat \<Rightarrow> smiol_code \<times> nat \<times> nat" where
  "spec_get_io_elements group_size left r num_io_tasks io_stride n_global =
     (case io_elements group_size r num_io_tasks io_stride n_global of
        Inl e \<Rightarrow> (e, left)
      | Inr w \<Rightarrow> (SMIOL_SUCCESS, w))"

section \<open>Creating a decomposition\<close>

text \<open>
  What \<^verbatim>\<open>SMIOL_create_decomp\<close> takes from outside \<^verbatim>\<open>smiol.c\<close>:
  \<^item> \<open>sizeof_size_t\<close>: \<^verbatim>\<open>sizeof(size_t)\<close> in bytes; a \<^verbatim>\<open>size_t\<close> is a natural number
    below \<open>2 ^ (8 * sizeof_size_t)\<close>;
  \<^item> \<open>MPI_Allreduce\<close>: the sum over the communicator of the local element counts,
    \<open>None\<close> when the call does not return \<^verbatim>\<open>MPI_SUCCESS\<close>;
  \<^item> \<open>get_io_elements\<close>: the partitioner, called with the rank, the policy and the global
    element count; it yields its return code and the values of \<^verbatim>\<open>io_start\<close> and
    \<^verbatim>\<open>io_count\<close> after the call;
  \<^item> \<open>malloc_ok\<close>: whether \<^verbatim>\<open>malloc\<close> of that many bytes returns a non-null pointer;
  \<^item> \<open>build_exchange\<close>: the exchange-plan builder, called with the context, the compute
    elements, \<^verbatim>\<open>io_count\<close>, the buffer of I/O elements, and the \<^verbatim>\<open>decomp\<close> out-parameter;
    it yields its return code, the heap and the caller's variable after the call.
\<close>

record decomp_env =
  sizeof_size_t :: nat
  MPI_Allreduce :: "int \<Rightarrow> nat \<Rightarrow> nat option"
  get_io_elements :: "int \<Rightarrow> int \<Rightarrow> int \<Rightarrow> nat \<Rightarrow> smiol_code \<times> nat \<times> nat"
  malloc_ok :: "nat \<Rightarrow> bool"
  build_exchange :: "addr option \<Rightarrow> nat \<Rightarrow> addr option \<Rightarrow> nat \<Rightarrow> SMIOL_Offset option list option
                     \<Rightarrow> heap \<Rightarrow> addr option option \<Rightarrow> smiol_code \<times> heap \<times> addr option option"

text \<open>
  The loop \<^verbatim>\<open>for (i = 0; i < io_count; i++) io_elements[i] = (SMIOL_Offset)(io_start + i);\<close>
  on a buffer of cells, \<open>None\<close> being a cell never written. The sum is computed in
  \<^verbatim>\<open>size_t\<close> and converted to 64 bits. \<open>i\<close> stays below \<open>io_count\<close>, so \<^verbatim>\<open>i++\<close> never wraps.
\<close>

function fill_io_elements :: "nat \<Rightarrow> nat \<Rightarrow> nat \<Rightarrow> nat \<Rightarrow> SMIOL_Offset option list \<Rightarrow> fault + SMIOL_Offset option list" where
  "fill_io_elements sz start cnt i buf =
     (if i < cnt
      then (if i < length buf
            then fill_io_elements sz start cnt (Suc i)
                   (buf[i := Some (word_of_nat ((start + i) mod 2 ^ (8 * sz)))])
            else Inl Out_of_bounds)
      else Inr buf)"
  by pat_completeness auto
termination
  by (relation "measure (\<lambda>(sz, start, cnt, i, buf). cnt - i)") auto

declare fill_io_elements.simps [simp del]

text \<open>
  The number of bytes \<^verbatim>\<open>sizeof(SMIOL_Offset) * n_io_elements_global\<close>, the product taken
  in \<^verbatim>\<open>size_t\<close>; an \<^verbatim>\<open>SMIOL_Offset\<close> has 8 bytes, so that the block holds an eighth
  of this number of cells.
\<close>

definition io_elements_bytes :: "nat \<Rightarrow> nat \<Rightarrow> nat" where
  "io_elements_bytes sz n_io_elements_global = (8 * n_io_elements_global) mod 2 ^ (8 * sz)"

text \<open>
  Lines 1418 to 1430 of \<^verbatim>\<open>smiol.c\<close>: the local array \<^verbatim>\<open>io_elements\<close>. The result is
  \<open>None\<close> when \<^verbatim>\<open>malloc\<close> fails, \<open>Some None\<close> for the null pointer kept when
  \<^verbatim>\<open>io_count\<close> is zero, and \<open>Some (Some buf)\<close> for the filled buffer.
\<close>

definition make_io_elements :: "decomp_env \<Rightarrow> nat \<Rightarrow> nat \<Rightarrow> nat \<Rightarrow> fault + SMIOL_Offset option list option option" where
  "make_io_elements env n_io_elements_global start cnt =
     (if 0 < cnt
      then (if malloc_ok env (io_elements_bytes (sizeof_size_t env) n_io_elements_global)
            then (case fill_io_elements (sizeof_size_t env) start cnt 0
                         (replicate (io_elements_bytes (sizeof_size_t env) n_io_elements_global div 8) None) of
                    Inl e \<Rightarrow> Inl e
                  | Inr buf \<Rightarrow> Inr (Some (Some buf)))
            else Inr None)
      else Inr (Some None))"

text \<open>
  Lines 1443 to 1452: when the builder reports success, \<^verbatim>\<open>(*decomp)->io_start\<close> and
  \<^verbatim>\<open>(*decomp)->io_count\<close> are set; the builder's code is returned in every case.
\<close>

definition attach_window :: "nat \<Rightarrow> nat \<Rightarrow> smiol_code \<times> heap \<times> addr option option \<Rightarrow> fault + (smiol_code \<times> heap \<times> addr option option)" where
  "attach_window start cnt r =
     (case r of (ierr, h1, decomp1) \<Rightarrow>
        if ierr = SMIOL_SUCCESS
        then (case decomp1 of
                None \<Rightarrow> Inl Null_dereference
              | Some None \<Rightarrow> Inl Null_dereference
              | Some (Some a) \<Rightarrow>
                  (case deref_decomp h1 (Some a) of
                     Inl e \<Rightarrow> Inl e
                   | Inr d \<Rightarrow> Inr (ierr, h1(a \<mapsto> Decomp_block (d\<lparr>io_start := start, io_count := cnt\<rparr>)), decomp1)))
        else Inr (ierr, h1, decomp1))"

text \<open>
  \<^verbatim>\<open>int SMIOL_create_decomp(struct SMIOL_context *context, size_t n_compute_elements,
  SMIOL_Offset *compute_elements, int num_io_tasks, int io_stride,
  struct SMIOL_decomp **decomp)\<close>.
  The code returned by \<^verbatim>\<open>get_io_elements\<close> is stored in \<^verbatim>\<open>ierr\<close> and overwritten by the
  call of \<^verbatim>\<open>build_exchange\<close> before it is read.
\<close>

definition SMIOL_create_decomp :: "decomp_env \<Rightarrow> heap \<Rightarrow> addr option \<Rightarrow> nat \<Rightarrow> addr option \<Rightarrow> int \<Rightarrow> int \<Rightarrow> addr option option
    \<Rightarrow> fault + (smiol_code \<times> heap \<times> addr option option)" where
  "SMIOL_create_decomp env h cntxt n_compute_elements compute_elements num_io_tasks io_stride decomp =
     (case cntxt of
        None \<Rightarrow> Inr (SMIOL_INVALID_ARGUMENT, h, decomp)
      | Some ca \<Rightarrow>
          if compute_elements = None \<and> n_compute_elements \<noteq> 0
          then Inr (SMIOL_INVALID_ARGUMENT, h, decomp)
          else
            (case deref_context h (Some ca) of
               Inl e \<Rightarrow> Inl e
             | Inr c \<Rightarrow>
                 if sizeof_size_t env = 8 \<or> sizeof_size_t env = 4 \<or> sizeof_size_t env = 2
                 then
                   (case MPI_Allreduce env (fcomm c) n_compute_elements of
                      None \<Rightarrow> Inr (SMIOL_MPI_ERROR, h, decomp)
                    | Some n_io_elements_global \<Rightarrow>
                        (case get_io_elements env (comm_rank c) num_io_tasks io_stride n_io_elements_global of
                           (ierr, start, cnt) \<Rightarrow>
                             (case make_io_elements env n_io_elements_global start cnt of
                                Inl e \<Rightarrow> Inl e
                              | Inr None \<Rightarrow> Inr (SMIOL_MALLOC_FAILURE, h, decomp)
                              | Inr (Some io_elems) \<Rightarrow>
                                  attach_window start cnt
                                    (build_exchange env cntxt n_compute_elements compute_elements
                                       cnt io_elems h decomp))))
                 else Inr (SMIOL_MPI_ERROR, h, decomp)))"

text \<open>
  \<^verbatim>\<open>build_exchange\<close> is not among the source files either, and every statement about
  \<open>SMIOL_create_decomp\<close> below holds for any builder. To run the function on concrete
  inputs the builder is replaced by a stand-in that allocates a handle with two null
  tables at the address \<open>fresh\<close> and reports success.
\<close>

definition stub_build_exchange :: "addr \<Rightarrow> addr option \<Rightarrow> nat \<Rightarrow> addr option \<Rightarrow> nat \<Rightarrow> SMIOL_Offset option list option
    \<Rightarrow> heap \<Rightarrow> addr option option \<Rightarrow> smiol_code \<times> heap \<times> addr option option" where
  "stub_build_exchange fresh cntxt n_compute_elements compute_elements n_io io_elems h decomp =
     (SMIOL_SUCCESS,
      h(fresh \<mapsto> Decomp_block \<lparr>comp_list = None, io_list = None, io_start = 0, io_count = 0\<rparr>),
      Some (Some fresh))"

text \<open>
  The specification's words for the I/O-side identifiers of a rank: the dense sequence
  \<open>[io_start, io_start + io_count)\<close>, empty when \<open>io_count\<close> is zero.
\<close>

definition dense_sequence :: "nat \<Rightarrow> nat \<Rightarrow> int list" where
  "dense_sequence start cnt = map int [start..<start + cnt]"

section \<open>Inquiring about variables and dimensions\<close>

definition PNETCDF_DEFINE_MODE :: int where
  "PNETCDF_DEFINE_MODE = 0"

definition PNETCDF_DATA_MODE :: int where
  "PNETCDF_DATA_MODE = 1"

text \<open>
  \<^verbatim>\<open>file->context->lib_type = SMIOL_LIBRARY_PNETCDF; file->context->lib_ierr = ierr;\<close>
\<close>

definition set_lib_error :: "heap \<Rightarrow> SMIOL_file \<Rightarrow> int \<Rightarrow> fault + heap" where
  "set_lib_error h f ierr =
     (case file_context f of
        None \<Rightarrow> Inl Null_dereference
      | Some ca \<Rightarrow>
          (case deref_context h (Some ca) of
             Inl e \<Rightarrow> Inl e
           | Inr c \<Rightarrow> Inr (h(ca \<mapsto> Context_block (c\<lparr>lib_type := SMIOL_LIBRARY_PNETCDF, lib_ierr := ierr\<rparr>)))))"

text \<open>The conversion of a signed 64-bit value to \<^verbatim>\<open>size_t\<close>.\<close>

definition to_size_t :: "nat \<Rightarrow> int \<Rightarrow> nat" where
  "to_size_t sz v = nat (v mod 2 ^ (8 * sz))"

text \<open>
  The way the loop over the dimension names in \<^verbatim>\<open>SMIOL_inquire_var\<close> leaves, each time
  with the names written so far: it runs to its end, returns a code, fails in the library
  with \<open>ierr\<close> (the function then records the error in the context and returns
  \<open>SMIOL_LIBRARY_ERROR\<close>), or does something undefined.
\<close>

datatype 'a step = Done 'a | Return smiol_code 'a | Library_failure int 'a | Fault fault

text \<open>
  The loop over the dimension names in \<^verbatim>\<open>SMIOL_inquire_var\<close>. \<open>bufs ! i\<close> is \<open>None\<close> when
  \<^verbatim>\<open>dimnames[i]\<close> is null and \<open>Some n\<close> when it points to a buffer of \<open>n\<close> characters. The
  library writes the name and a terminating zero: a name of \<open>n\<close> or more characters is
  written past the end of the buffer.
\<close>

fun inq_dimnames :: "file_env \<Rightarrow> int \<Rightarrow> (nat \<Rightarrow> int) \<Rightarrow> nat option list \<Rightarrow> nat list \<Rightarrow> string list step" where
  "inq_dimnames be ncid dimids bufs [] = Done []"
| "inq_dimnames be ncid dimids bufs (i # rest) =
     (if i < length bufs
      then (case bufs ! i of
              None \<Rightarrow> Return SMIOL_INVALID_ARGUMENT []
            | Some n \<Rightarrow>
                (case ncmpi_inq_dimname be ncid (dimids i) of
                   Inl ierr \<Rightarrow> Library_failure ierr []
                 | Inr name \<Rightarrow>
                     if length name < n
                     then (case inq_dimnames be ncid dimids bufs rest of
                             Done names \<Rightarrow> Done (name # names)
                           | Return rc names \<Rightarrow> Return rc (name # names)
                           | Library_failure ierr names \<Rightarrow> Library_failure ierr (name # names)
                           | Fault e \<Rightarrow> Fault e)
                     else Fault Out_of_bounds))
      else Fault Out_of_bounds)"

text \<open>
  \<^verbatim>\<open>int SMIOL_inquire_var(struct SMIOL_file *file, const char *varname, int *vartype,
  int *ndims, char **dimnames)\<close>. An out-parameter is given by whether it is non-null
  (for \<^verbatim>\<open>dimnames\<close>: \<open>None\<close> for null, else the array of its entries, null or the size
  of the buffer); the result carries the code, the heap and the values written.
\<close>

record var_info =
  vartype_out :: "smiol_vartype option"
  ndims_out :: "int option"
  dimnames_out :: "string list"

definition xtype_to_vartype :: "nc_type \<Rightarrow> smiol_vartype" where
  "xtype_to_vartype x =
     (case x of
        NC_FLOAT \<Rightarrow> SMIOL_REAL32
      | NC_DOUBLE \<Rightarrow> SMIOL_REAL64
      | NC_INT \<Rightarrow> SMIOL_INT32
      | NC_CHAR \<Rightarrow> SMIOL_CHAR
      | NC_OTHER \<Rightarrow> SMIOL_UNKNOWN_VAR_TYPE)"

definition library_error :: "heap \<Rightarrow> SMIOL_file \<Rightarrow> int \<Rightarrow> 'a \<Rightarrow> fault + (smiol_code \<times> heap \<times> 'a)" where
  "library_error h f ierr out =
     (case set_lib_error h f ierr of
        Inl e \<Rightarrow> Inl e
      | Inr h1 \<Rightarrow> Inr (SMIOL_LIBRARY_ERROR, h1, out))"

definition SMIOL_inquire_var :: "file_env \<Rightarrow> heap \<Rightarrow> addr option \<Rightarrow> string option \<Rightarrow> bool \<Rightarrow> bool \<Rightarrow> nat option list option
    \<Rightarrow> fault + (smiol_code \<times> heap \<times> var_info)" where
  "SMIOL_inquire_var be h file varname want_vartype want_ndims dimnames =
     (let nothing = \<lparr>vartype_out = None, ndims_out = None, dimnames_out = []\<rparr> in
      case file of None \<Rightarrow> Inr (SMIOL_INVALID_ARGUMENT, h, nothing) | Some fa \<Rightarrow>
      case varname of None \<Rightarrow> Inr (SMIOL_INVALID_ARGUMENT, h, nothing) | Some name \<Rightarrow>
      if \<not> want_vartype \<and> \<not> want_ndims \<and> dimnames = None then Inr (SMIOL_SUCCESS, h, nothing)
      else if \<not> pnetcdf be then Inr (SMIOL_SUCCESS, h, nothing)
      else
        case deref_file h (Some fa) of Inl e \<Rightarrow> Inl e | Inr f \<Rightarrow>
        case ncmpi_inq_varid be (ncidp f) name of
          Inl ierr \<Rightarrow> library_error h f ierr nothing
        | Inr varidp \<Rightarrow>
        case (if want_vartype
              then (case ncmpi_inq_vartype be (ncidp f) varidp of
                      Inl ierr \<Rightarrow> Inl ierr
                    | Inr xtypep \<Rightarrow> Inr (nothing\<lparr>vartype_out := Some (xtype_to_vartype xtypep)\<rparr>))
              else Inr nothing) of
          Inl ierr \<Rightarrow> library_error h f ierr nothing
        | Inr info1 \<Rightarrow>
        if \<not> want_ndims \<and> dimnames = None then Inr (SMIOL_SUCCESS, h, info1)
        else
          case ncmpi_inq_varndims be (ncidp f) varidp of
            Inl ierr \<Rightarrow> library_error h f ierr info1
          | Inr ndimsp \<Rightarrow>
          let info2 = (if want_ndims then info1\<lparr>ndims_out := Some ndimsp\<rparr> else info1) in
          case dimnames of
            None \<Rightarrow> Inr (SMIOL_SUCCESS, h, info2)
          | Some bufs \<Rightarrow>
              if \<not> dimids_malloc_ok be (to_size_t (size_t_bytes be) (int (sizeof_int be) * ndimsp))
              then Inr (SMIOL_MALLOC_FAILURE, h, info2)
              else
                case ncmpi_inq_vardimid be (ncidp f) varidp of
                  Inl ierr \<Rightarrow> library_error h f ierr info2
                | Inr dimids \<Rightarrow>
                    (case inq_dimnames be (ncidp f) dimids bufs [0..<nat ndimsp] of
                       Done names \<Rightarrow> Inr (SMIOL_SUCCESS, h, info2\<lparr>dimnames_out := names\<rparr>)
                     | Return rc names \<Rightarrow> Inr (rc, h, info2\<lparr>dimnames_out := names\<rparr>)
                     | Library_failure ierr names \<Rightarrow>
                         library_error h f ierr (info2\<lparr>dimnames_out := names\<rparr>)
                     | Fault e \<Rightarrow> Inl e))"

text \<open>
  \<^verbatim>\<open>int SMIOL_inquire_dim(struct SMIOL_file *file, const char *dimname,
  SMIOL_Offset *dimsize, int *is_unlimited)\<close>. The result carries the code, the heap and
  the values of \<^verbatim>\<open>*dimsize\<close> and \<^verbatim>\<open>*is_unlimited\<close> after the call (\<open>None\<close> for an
  out-parameter that is null). When \<^verbatim>\<open>ncmpi_inq_dimid\<close> fails the code writes \<^verbatim>\<open>*dimsize\<close>
  without testing \<^verbatim>\<open>dimsize\<close>.
\<close>

definition SMIOL_inquire_dim :: "file_env \<Rightarrow> heap \<Rightarrow> addr option \<Rightarrow> string option \<Rightarrow> bool \<Rightarrow> bool
    \<Rightarrow> fault + (smiol_code \<times> heap \<times> SMIOL_Offset option \<times> int option)" where
  "SMIOL_inquire_dim be h file dimname want_dimsize want_unlimited =
     (let nothing = (None, None);
          dimsize0 = (if want_dimsize then Some 0 else None);
          unlim0 = (if want_unlimited then Some 0 else None)
      in
      case file of None \<Rightarrow> Inr (SMIOL_INVALID_ARGUMENT, h, nothing) | Some fa \<Rightarrow>
      case dimname of None \<Rightarrow> Inr (SMIOL_INVALID_ARGUMENT, h, nothing) | Some name \<Rightarrow>
      if \<not> want_dimsize \<and> \<not> want_unlimited then Inr (SMIOL_INVALID_ARGUMENT, h, nothing)
      else if \<not> pnetcdf be then Inr (SMIOL_SUCCESS, h, dimsize0, unlim0)
      else
        case deref_file h (Some fa) of Inl e \<Rightarrow> Inl e | Inr f \<Rightarrow>
        case ncmpi_inq_dimid be (ncidp f) name of
          Inl ierr \<Rightarrow>
            if want_dimsize then library_error h f ierr (Some (- 1), unlim0)
            else Inl Null_dereference
        | Inr dimidp \<Rightarrow>
        case (if want_dimsize
              then (case ncmpi_inq_dimlen be (ncidp f) dimidp of
                      Inl ierr \<Rightarrow> Inl ierr
                    | Inr len \<Rightarrow> Inr (Some len))
              else Inr None) of
          Inl ierr \<Rightarrow> library_error h f ierr (Some (- 1), unlim0)
        | Inr dimsize1 \<Rightarrow>
        if want_unlimited
        then (case ncmpi_inq_unlimdim be (ncidp f) of
                Inl ierr \<Rightarrow> library_error h f ierr (dimsize1, unlim0)
              | Inr unlimdimidp \<Rightarrow>
                  Inr (SMIOL_SUCCESS, h, dimsize1, Some (if unlimdimidp = dimidp then 1 else 0)))
        else Inr (SMIOL_SUCCESS, h, dimsize1, unlim0))"

section \<open>Writing and reading a variable\<close>

text \<open>
  The locals of the loop that computes the hyperslab: the arrays \<^verbatim>\<open>start\<close> and \<^verbatim>\<open>count\<close>
  as far as they are written (the loop writes the entries in the order of the indices,
  so that writing entry \<open>i\<close> appends to a list of length \<open>i\<close>), \<^verbatim>\<open>innerdim_size\<close>
  (an \<^verbatim>\<open>int\<close>), and \<^verbatim>\<open>dimsize\<close> and \<^verbatim>\<open>is_unlimited\<close> as \<^verbatim>\<open>SMIOL_inquire_dim\<close> left them.
\<close>

record slab =
  slab_start :: "nat list"
  slab_count :: "nat list"
  slab_inner :: "32 word"
  slab_dimsize :: "SMIOL_Offset option"
  slab_unlimited :: "int option"

text \<open>
  One pass of the loop body for the index \<open>i\<close>, in \<^verbatim>\<open>SMIOL_put_var\<close> and in
  \<^verbatim>\<open>SMIOL_get_var\<close>:
  \<^verbatim>\<open>if (i == 0 && decomp != NULL) { start[i] = decomp->io_start; count[i] = decomp->io_count; continue; }\<close>
  and otherwise the call of \<^verbatim>\<open>SMIOL_inquire_dim\<close>, the choice between the frame and the
  whole dimension, and \<^verbatim>\<open>innerdim_size *= dimsize\<close>, the product taken in 64 bits and
  cut to an \<^verbatim>\<open>int\<close>. The result is a fault, an early return with its code and heap, or
  the locals after the pass.
\<close>

definition slab_body :: "file_env \<Rightarrow> heap \<Rightarrow> addr option \<Rightarrow> addr option \<Rightarrow> string list \<Rightarrow> nat \<Rightarrow> slab
    \<Rightarrow> fault + ((smiol_code \<times> heap) + slab)" where
  "slab_body be h file decomp names i s =
     (if i = 0 \<and> decomp \<noteq> None
      then (case deref_decomp h decomp of
              Inl e \<Rightarrow> Inl e
            | Inr d \<Rightarrow> Inr (Inr (s\<lparr>slab_start := slab_start s @ [io_start d],
                                    slab_count := slab_count s @ [io_count d]\<rparr>)))
      else if i < length names
      then (case SMIOL_inquire_dim be h file (Some (names ! i)) True True of
              Inl e \<Rightarrow> Inl e
            | Inr (ierr, h1, dimsize1, unlimited1) \<Rightarrow>
                if ierr = SMIOL_SUCCESS
                then (case dimsize1 of None \<Rightarrow> Inl Uninitialised_read | Some dimsize \<Rightarrow>
                      case unlimited1 of None \<Rightarrow> Inl Uninitialised_read | Some is_unlimited \<Rightarrow>
                      case deref_file h1 file of Inl e \<Rightarrow> Inl e | Inr f \<Rightarrow>
                        Inr (Inr
                          \<lparr>slab_start = slab_start s
                              @ [if is_unlimited = 0 then 0 else to_size_t (size_t_bytes be) (sint (frame f))],
                           slab_count = slab_count s
                              @ [if is_unlimited = 0 then to_size_t (size_t_bytes be) (sint dimsize) else 1],
                           slab_inner = word_of_int (sint (slab_inner s) * sint dimsize),
                           slab_dimsize = dimsize1,
                           slab_unlimited = unlimited1\<rparr>))
                else Inr (Inl (ierr, h1)))
      else Inl Uninitialised_read)"

text \<open>\<^verbatim>\<open>for (i = 0; i < ndims; i++)\<close>, over the indices still to come.\<close>

fun slab_loop :: "file_env \<Rightarrow> heap \<Rightarrow> addr option \<Rightarrow> addr option \<Rightarrow> string list \<Rightarrow> nat list \<Rightarrow> slab
    \<Rightarrow> fault + ((smiol_code \<times> heap) + slab)" where
  "slab_loop be h file decomp names [] s = Inr (Inr s)"
| "slab_loop be h file decomp names (i # rest) s =
     (case slab_body be h file decomp names i s of
        Inl e \<Rightarrow> Inl e
      | Inr (Inl r) \<Rightarrow> Inr (Inl r)
      | Inr (Inr s1) \<Rightarrow> slab_loop be h file decomp names rest s1)"

text \<open>
  The text that \<^verbatim>\<open>SMIOL_put_var\<close> and \<^verbatim>\<open>SMIOL_get_var\<close> share, from the first call of
  \<^verbatim>\<open>SMIOL_inquire_var\<close> to the end of the loop. The array \<^verbatim>\<open>dimnames\<close>, its \<open>ndims\<close>
  buffers of 64 characters each, \<^verbatim>\<open>start\<close> and \<^verbatim>\<open>count\<close> are allocated without a check;
  the model takes these allocations to succeed. \<^verbatim>\<open>is_unlimited\<close> starts as 0 in
  \<^verbatim>\<open>SMIOL_put_var\<close> and unset in \<^verbatim>\<open>SMIOL_get_var\<close>; every pass that reads it has set it
  before. A call of \<^verbatim>\<open>SMIOL_inquire_var\<close> or \<^verbatim>\<open>SMIOL_inquire_dim\<close> that returns
  \<open>SMIOL_SUCCESS\<close> leaves the heap as it was, so that the statements after the loop run
  on the heap of the call. The result is a fault, an early return, or the type of the
  variable and the locals of the loop.
\<close>

definition var_hyperslab :: "file_env \<Rightarrow> heap \<Rightarrow> addr option \<Rightarrow> addr option \<Rightarrow> string option
    \<Rightarrow> fault + ((smiol_code \<times> heap) + (smiol_vartype option \<times> slab))" where
  "var_hyperslab be h file decomp varname =
     (case SMIOL_inquire_var be h file varname True True None of
        Inl e \<Rightarrow> Inl e
      | Inr (ierr, h1, info) \<Rightarrow>
          if ierr = SMIOL_SUCCESS
          then (case ndims_out info of
                  None \<Rightarrow> Inl Uninitialised_read
                | Some ndims \<Rightarrow>
                    (case SMIOL_inquire_var be h1 file varname False False (Some (replicate (nat ndims) (Some 64))) of
                       Inl e \<Rightarrow> Inl e
                     | Inr (ierr2, h2, info2) \<Rightarrow>
                         if ierr2 = SMIOL_SUCCESS
                         then (case slab_loop be h2 file decomp (dimnames_out info2) [0..<nat ndims]
                                      \<lparr>slab_start = [], slab_count = [], slab_inner = 1,
                                       slab_dimsize = None, slab_unlimited = None\<rparr> of
                                 Inl e \<Rightarrow> Inl e
                               | Inr (Inl r) \<Rightarrow> Inr (Inl r)
                               | Inr (Inr s) \<Rightarrow> Inr (Inr (vartype_out info, s)))
                         else Inr (Inl (ierr2, h2))))
          else Inr (Inl (ierr, h1)))"

text \<open>The \<^verbatim>\<open>switch (vartype)\<close> that sets \<^verbatim>\<open>dsize\<close>; it has no default case.\<close>

definition dsize_of :: "file_env \<Rightarrow> smiol_vartype option \<Rightarrow> nat option" where
  "dsize_of be vartype =
     (case vartype of
        Some SMIOL_REAL32 \<Rightarrow> Some (sizeof_float be)
      | Some SMIOL_REAL64 \<Rightarrow> Some (sizeof_double be)
      | Some SMIOL_INT32 \<Rightarrow> Some (sizeof_int be)
      | Some SMIOL_CHAR \<Rightarrow> Some 1
      | _ \<Rightarrow> None)"

text \<open>\<^verbatim>\<open>dsize * innerdim_size\<close>, a product in \<^verbatim>\<open>size_t\<close>.\<close>

definition element_size :: "file_env \<Rightarrow> nat \<Rightarrow> 32 word \<Rightarrow> nat" where
  "element_size be dsize inner =
     (dsize * to_size_t (size_t_bytes be) (sint inner)) mod 2 ^ (8 * size_t_bytes be)"

text \<open>
  What \<^verbatim>\<open>malloc(dsize * count[0] * innerdim_size)\<close> reads: \<^verbatim>\<open>dsize\<close>, unset for a variable
  of unknown type, and \<^verbatim>\<open>count[0]\<close>, past the end of \<^verbatim>\<open>count\<close> for a variable without
  dimensions. The result is \<^verbatim>\<open>dsize\<close>.
\<close>

definition io_buf_dsize :: "file_env \<Rightarrow> smiol_vartype option \<Rightarrow> slab \<Rightarrow> fault + nat" where
  "io_buf_dsize be vartype s =
     (case dsize_of be vartype of
        None \<Rightarrow> Inl Uninitialised_read
      | Some dsize \<Rightarrow> (case slab_count s of [] \<Rightarrow> Inl Out_of_bounds | c # cs \<Rightarrow> Inr dsize))"

text \<open>
  \<^verbatim>\<open>if (file->state == PNETCDF_DEFINE_MODE)\<close>: leave define mode. The result is the
  library's error code or the heap with the file in data mode.
\<close>

definition leave_define_mode :: "file_env \<Rightarrow> heap \<Rightarrow> addr \<Rightarrow> SMIOL_file \<Rightarrow> int + heap" where
  "leave_define_mode be h fa f =
     (if state f = PNETCDF_DEFINE_MODE
      then (case ncmpi_enddef be (ncidp f) of
              Some ierr \<Rightarrow> Inl ierr
            | None \<Rightarrow> Inr (h(fa \<mapsto> File_block (f\<lparr>state := PNETCDF_DATA_MODE\<rparr>))))
      else Inr h)"

text \<open>
  The end of \<^verbatim>\<open>SMIOL_put_var\<close>, from \<^verbatim>\<open>ncmpi_inq_varid\<close> on: \<open>data\<close> is the buffer written,
  \<open>tr\<close> the trace so far.
\<close>

definition put_var_store :: "file_env \<Rightarrow> heap \<Rightarrow> addr \<Rightarrow> string \<Rightarrow> slab \<Rightarrow> buffer \<Rightarrow> event list
    \<Rightarrow> fault + (smiol_code \<times> heap \<times> event list)" where
  "put_var_store be h fa name s data tr =
     (case deref_file h (Some fa) of Inl e \<Rightarrow> Inl e | Inr f \<Rightarrow>
      case ncmpi_inq_varid be (ncidp f) name of
        Inl ierr \<Rightarrow> library_error h f ierr tr
      | Inr varidp \<Rightarrow>
          (case leave_define_mode be h fa f of
             Inl ierr \<Rightarrow> library_error h f ierr tr
           | Inr h1 \<Rightarrow>
               (case ncmpi_put_vara_all be (ncidp f) varidp (slab_start s) (slab_count s) data of
                  Some ierr \<Rightarrow>
                    library_error h1 f ierr
                      (tr @ [Put_vara_all (ncidp f) varidp (slab_start s) (slab_count s) data])
                | None \<Rightarrow>
                    Inr (SMIOL_SUCCESS, h1,
                         tr @ [Put_vara_all (ncidp f) varidp (slab_start s) (slab_count s) data]))))"

text \<open>
  \<^verbatim>\<open>int SMIOL_put_var(struct SMIOL_file *file, struct SMIOL_decomp *decomp,
  const char *varname, const void *buf)\<close>. \<open>buf\<close> tells whether \<^verbatim>\<open>buf\<close> is non-null. The
  result is the code, the heap and the trace of the calls that moved data.
\<close>

definition SMIOL_put_var :: "file_env \<Rightarrow> heap \<Rightarrow> addr option \<Rightarrow> addr option \<Rightarrow> string option \<Rightarrow> bool
    \<Rightarrow> fault + (smiol_code \<times> heap \<times> event list)" where
  "SMIOL_put_var be h file decomp varname buf =
     (case file of None \<Rightarrow> Inr (SMIOL_INVALID_ARGUMENT, h, []) | Some fa \<Rightarrow>
      case varname of None \<Rightarrow> Inr (SMIOL_INVALID_ARGUMENT, h, []) | Some name \<Rightarrow>
      if buf
      then
        if pnetcdf be
        then
          (case var_hyperslab be h file decomp varname of
             Inl e \<Rightarrow> Inl e
           | Inr (Inl (ierr, h1)) \<Rightarrow> Inr (ierr, h1, [])
           | Inr (Inr (vartype, s)) \<Rightarrow>
               (case decomp of
                  Some da \<Rightarrow>
                    (case io_buf_dsize be vartype s of
                       Inl e \<Rightarrow> Inl e
                     | Inr dsize \<Rightarrow>
                         if transfer_field be h da SMIOL_COMP_TO_IO (element_size be dsize (slab_inner s))
                              Caller_buf Io_buf = SMIOL_SUCCESS
                         then put_var_store be h fa name s Io_buf
                                [Transfer_field da SMIOL_COMP_TO_IO (element_size be dsize (slab_inner s))
                                   Caller_buf Io_buf]
                         else Inr (transfer_field be h da SMIOL_COMP_TO_IO (element_size be dsize (slab_inner s))
                                     Caller_buf Io_buf,
                                   h,
                                   [Transfer_field da SMIOL_COMP_TO_IO (element_size be dsize (slab_inner s))
                                      Caller_buf Io_buf]))
                | None \<Rightarrow> put_var_store be h fa name s Caller_buf []))
        else Inr (SMIOL_SUCCESS, h, [])
      else Inr (SMIOL_INVALID_ARGUMENT, h, []))"

text \<open>
  The value \<^verbatim>\<open>SMIOL_get_var\<close> returns is a return code or, where the code reads
  \<^verbatim>\<open>return SMIOL_LIBRARY_PNETCDF;\<close>, the constant that names the library.
\<close>

datatype retval = Code smiol_code | Library_kind lib_kind

text \<open>
  \<^verbatim>\<open>int SMIOL_get_var(struct SMIOL_file *file, struct SMIOL_decomp *decomp,
  const char *varname, void *buf)\<close>. The return value of \<^verbatim>\<open>transfer_field\<close> is stored and
  not read.
\<close>

definition SMIOL_get_var :: "file_env \<Rightarrow> heap \<Rightarrow> addr option \<Rightarrow> addr option \<Rightarrow> string option \<Rightarrow> bool
    \<Rightarrow> fault + (retval \<times> heap \<times> event list)" where
  "SMIOL_get_var be h file decomp varname buf =
     (case file of None \<Rightarrow> Inr (Code SMIOL_INVALID_ARGUMENT, h, []) | Some fa \<Rightarrow>
      case varname of None \<Rightarrow> Inr (Code SMIOL_INVALID_ARGUMENT, h, []) | Some name \<Rightarrow>
      if buf
      then
        if pnetcdf be
        then
          (case var_hyperslab be h file decomp varname of
             Inl e \<Rightarrow> Inl e
           | Inr (Inl (ierr, h1)) \<Rightarrow> Inr (Code ierr, h1, [])
           | Inr (Inr (vartype, s)) \<Rightarrow>
               (case deref_file h (Some fa) of Inl e \<Rightarrow> Inl e | Inr f \<Rightarrow>
                case ncmpi_inq_varid be (ncidp f) name of
                  Inl ierr \<Rightarrow>
                    (case set_lib_error h f ierr of
                       Inl e \<Rightarrow> Inl e
                     | Inr h1 \<Rightarrow> Inr (Code SMIOL_LIBRARY_ERROR, h1, []))
                | Inr varidp \<Rightarrow>
                    (case leave_define_mode be h fa f of
                       Inl ierr \<Rightarrow>
                         (case set_lib_error h f ierr of
                            Inl e \<Rightarrow> Inl e
                          | Inr h1 \<Rightarrow> Inr (Library_kind SMIOL_LIBRARY_PNETCDF, h1, []))
                     | Inr h1 \<Rightarrow>
                         (case decomp of
                            Some da \<Rightarrow>
                              (case io_buf_dsize be vartype s of
                                 Inl e \<Rightarrow> Inl e
                               | Inr dsize \<Rightarrow>
                                   (case ncmpi_get_vara_all be (ncidp f) varidp (slab_start s) (slab_count s) Io_buf of
                                      Some ierr \<Rightarrow>
                                        (case set_lib_error h1 f ierr of
                                           Inl e \<Rightarrow> Inl e
                                         | Inr h2 \<Rightarrow>
                                             Inr (Code SMIOL_LIBRARY_ERROR, h2,
                                                  [Get_vara_all (ncidp f) varidp (slab_start s) (slab_count s) Io_buf]))
                                    | None \<Rightarrow>
                                        Inr (Code SMIOL_SUCCESS, h1,
                                             [Get_vara_all (ncidp f) varidp (slab_start s) (slab_count s) Io_buf,
                                              Transfer_field da SMIOL_IO_TO_COMP
                                                (element_size be dsize (slab_inner s)) Io_buf Caller_buf])))
                          | None \<Rightarrow>
                              (case ncmpi_get_vara_all be (ncidp f) varidp (slab_start s) (slab_count s) Caller_buf of
                                 Some ierr \<Rightarrow>
                                   (case set_lib_error h1 f ierr of
                                      Inl e \<Rightarrow> Inl e
                                    | Inr h2 \<Rightarrow>
                                        Inr (Code SMIOL_LIBRARY_ERROR, h2,
                                             [Get_vara_all (ncidp f) varidp (slab_start s) (slab_count s) Caller_buf]))
                               | None \<Rightarrow>
                                   Inr (Code SMIOL_SUCCESS, h1,
                                        [Get_vara_all (ncidp f) varidp (slab_start s) (slab_count s) Caller_buf]))))))
        else Inr (Code SMIOL_SUCCESS, h, [])
      else Inr (Code SMIOL_INVALID_ARGUMENT, h, []))"

section \<open>Concrete inputs\<close>

text \<open>
  A group of four processes in which every rank holds the same number of compute
  elements: the context of the rank \<open>r\<close> at address 1 of an otherwise empty heap, and an
  environment with a 64-bit \<^verbatim>\<open>size_t\<close>, the specification's partitioner, an allocator
  that never fails and the stand-in builder allocating at address 7.
\<close>

definition example_heap :: "int \<Rightarrow> heap" where
  "example_heap r =
     Map.empty(1 \<mapsto> Context_block \<lparr>fcomm = 0, comm_size = 4, comm_rank = r, lib_ierr = 0,
                                    lib_type = SMIOL_LIBRARY_UNKNOWN\<rparr>)"

definition example_env :: decomp_env where
  "example_env =
     \<lparr>sizeof_size_t = 8,
      MPI_Allreduce = (\<lambda>comm n. Some (4 * n)),
      get_io_elements = spec_get_io_elements 4 (0, 0),
      malloc_ok = (\<lambda>bytes. True),
      build_exchange = stub_build_exchange 7\<rparr>"

text \<open>
  A heap with one decomposition of four elements at address 1, its two triplet tables at
  addresses 2 and 3 (one triplet per element, three offsets each), and an unrelated block
  at address 4.
\<close>

definition example_decomp_heap :: heap where
  "example_decomp_heap =
     Map.empty
       (1 \<mapsto> Decomp_block \<lparr>comp_list = Some 2, io_list = Some 3, io_start = 0, io_count = 4\<rparr>,
        2 \<mapsto> Offset_block [0, 0, 0, 0, 1, 1, 0, 2, 2, 0, 3, 3],
        3 \<mapsto> Offset_block [0, 0, 0, 0, 1, 1, 0, 2, 2, 0, 3, 3],
        4 \<mapsto> Offset_block [42])"

text \<open>
  A file in data mode at address 2 with its context at address 1 and a decomposition with
  the window \<open>(8, 8)\<close> at address 3; a library in which the file holds the variable
  \<open>theta\<close> of type \<^verbatim>\<open>NC_FLOAT\<close> over the dimensions \<open>nCells\<close> (16) and \<open>nVertLevels\<close> (3),
  no dimension being unlimited, and in which every call succeeds.
\<close>

definition example_file_heap :: heap where
  "example_file_heap =
     Map.empty
       (1 \<mapsto> Context_block \<lparr>fcomm = 0, comm_size = 4, comm_rank = 2, lib_ierr = 0,
                               lib_type = SMIOL_LIBRARY_UNKNOWN\<rparr>,
        2 \<mapsto> File_block \<lparr>file_context = Some 1, frame = 0, state = 1, ncidp = 10\<rparr>,
        3 \<mapsto> Decomp_block \<lparr>comp_list = None, io_list = None, io_start = 8, io_count = 8\<rparr>)"

definition example_file_env :: file_env where
  "example_file_env =
     \<lparr>pnetcdf = True,
      size_t_bytes = 8,
      sizeof_float = 4,
      sizeof_double = 8,
      sizeof_int = 4,
      dimids_malloc_ok = (\<lambda>bytes. True),
      ncmpi_inq_varid = (\<lambda>ncid name. if name = ''theta'' then Inr 5 else Inl (- 49)),
      ncmpi_inq_vartype = (\<lambda>ncid varid. Inr NC_FLOAT),
      ncmpi_inq_varndims = (\<lambda>ncid varid. Inr 2),
      ncmpi_inq_vardimid = (\<lambda>ncid varid. Inr (\<lambda>i. if i = 0 then 0 else 1)),
      ncmpi_inq_dimname = (\<lambda>ncid dimid. Inr (if dimid = 0 then ''nCells'' else ''nVertLevels'')),
      ncmpi_inq_dimid = (\<lambda>ncid name. Inr (if name = ''nCells'' then 0 else 1)),
      ncmpi_inq_dimlen = (\<lambda>ncid dimid. Inr (if dimid = 0 then 16 else 3)),
      ncmpi_inq_unlimdim = (\<lambda>ncid. Inr (- 1)),
      ncmpi_enddef = (\<lambda>ncid. None),
      ncmpi_close = (\<lambda>ncid. None),
      ncmpi_put_vara_all = (\<lambda>ncid varid st ct data. None),
      ncmpi_get_vara_all = (\<lambda>ncid varid st ct data. None),
      transfer_field = (\<lambda>h da dir es src dst. SMIOL_SUCCESS)\<rparr>"

section \<open>Properties of the frame accessors\<close>

text \<open>
  C9. For a file handle that points to a live file and every frame value \<open>v\<close> (no
  validation: negative values too), \<open>SMIOL_set_frame\<close> returns \<open>SMIOL_SUCCESS\<close>, changes
  the frame field of that file only, and \<open>SMIOL_get_frame\<close> on the resulting heap returns
  \<open>SMIOL_SUCCESS\<close> and stores \<open>v\<close>. On a null file \<open>SMIOL_set_frame\<close> returns
  \<open>SMIOL_INVALID_ARGUMENT\<close> and leaves the heap as it was; on a null file or a null frame
  pointer \<open>SMIOL_get_frame\<close> returns \<open>SMIOL_INVALID_ARGUMENT\<close> and leaves the
  out-parameter as it was.
\<close>

theorem set_get_frame_roundtrip:
  assumes "h a = Some (File_block f)"
  shows "SMIOL_set_frame h (Some a) v = Inr (SMIOL_SUCCESS, h(a \<mapsto> File_block (f\<lparr>frame := v\<rparr>)))
       \<and> SMIOL_get_frame (h(a \<mapsto> File_block (f\<lparr>frame := v\<rparr>))) (Some a) (Some w) = Inr (SMIOL_SUCCESS, Some v)
       \<and> SMIOL_set_frame h None v = Inr (SMIOL_INVALID_ARGUMENT, h)
       \<and> SMIOL_get_frame h None out = Inr (SMIOL_INVALID_ARGUMENT, out)
       \<and> SMIOL_get_frame h file None = Inr (SMIOL_INVALID_ARGUMENT, None)"
  using assms by (simp add: SMIOL_set_frame_def SMIOL_get_frame_def split: option.split)

theorem set_get_frame_roundtrip_witness:
  "SMIOL_set_frame (Map.empty(5 \<mapsto> File_block \<lparr>file_context = None, frame = 0, state = 0, ncidp = 7\<rparr>)) (Some 5) (- 3)
     = Inr (SMIOL_SUCCESS, Map.empty(5 \<mapsto> File_block \<lparr>file_context = None, frame = - 3, state = 0, ncidp = 7\<rparr>))
   \<and> SMIOL_get_frame (Map.empty(5 \<mapsto> File_block \<lparr>file_context = None, frame = - 3, state = 0, ncidp = 7\<rparr>)) (Some 5) (Some 0)
     = Inr (SMIOL_SUCCESS, Some (- 3))
   \<and> sint (- 3 :: SMIOL_Offset) = - 3"
  using set_get_frame_roundtrip
    [of "Map.empty(5 \<mapsto> File_block \<lparr>file_context = None, frame = 0, state = 0, ncidp = 7\<rparr>)" 5
        "\<lparr>file_context = None, frame = 0, state = 0, ncidp = 7\<rparr>" "- 3" 0]
  by simp

section \<open>Properties of the release functions\<close>

lemma free_ptr_Some:
  "h a = Some b \<Longrightarrow> free_ptr h (Some a) = Inr (h(a := None))"
  by (simp add: free_ptr_def)

lemma free_ptr_None: "free_ptr h None = Inr h"
  by (simp add: free_ptr_def)

lemma free_ptr_cases:
  "free_ptr h p = Inr h' \<Longrightarrow> (p = None \<and> h' = h) \<or> (\<exists>a. p = Some a \<and> h' = h(a := None))"
  by (auto simp: free_ptr_def split: option.splits)

lemma free_decomp_code:
  "SMIOL_free_decomp h p = Inr (rc, h', p') \<Longrightarrow> rc = SMIOL_SUCCESS \<and> p' = Some None"
  by (auto simp: SMIOL_free_decomp_def split: option.splits sum.splits)

lemma free_table:
  "table_ok h a t \<Longrightarrow> \<exists>h1. free_ptr h t = Inr h1 \<and> h1 a = h a
     \<and> (\<forall>x. t = Some x \<longrightarrow> h1 x = None) \<and> (\<forall>x. Some x \<noteq> t \<longrightarrow> h1 x = h x)"
  by (cases t) (auto simp: table_ok_def free_ptr_def)

text \<open>
  C5. \<open>SMIOL_free_decomp\<close> has no error outcome: whenever it returns, the code is
  \<open>SMIOL_SUCCESS\<close>. On a null handle it returns \<open>SMIOL_SUCCESS\<close> and changes nothing. On a
  valid handle (a live decomposition whose two tables are null or live blocks, distinct
  from each other when both are set) it returns \<open>SMIOL_SUCCESS\<close>, the two tables and the
  handle are no longer allocated, every other block is untouched, and the caller's
  pointer is null.
\<close>

theorem free_decomp_always_succeeds:
  "SMIOL_free_decomp h (Some None) = Inr (SMIOL_SUCCESS, h, Some None)
   \<and> (\<forall>p rc h' p'. SMIOL_free_decomp h p = Inr (rc, h', p') \<longrightarrow> rc = SMIOL_SUCCESS)
   \<and> (h a = Some (Decomp_block d) \<and> table_ok h a (comp_list d) \<and> table_ok h a (io_list d)
        \<and> (comp_list d = None \<or> io_list d = None \<or> comp_list d \<noteq> io_list d)
      \<longrightarrow> (\<exists>h'. SMIOL_free_decomp h (Some (Some a)) = Inr (SMIOL_SUCCESS, h', Some None)
             \<and> h' a = None
             \<and> (\<forall>x. comp_list d = Some x \<longrightarrow> h' x = None)
             \<and> (\<forall>x. io_list d = Some x \<longrightarrow> h' x = None)
             \<and> (\<forall>x. x \<noteq> a \<and> Some x \<noteq> comp_list d \<and> Some x \<noteq> io_list d \<longrightarrow> h' x = h x)))"
proof (intro conjI allI impI)
  show "SMIOL_free_decomp h (Some None) = Inr (SMIOL_SUCCESS, h, Some None)"
    by (simp add: SMIOL_free_decomp_def)
next
  fix p rc h' p'
  assume "SMIOL_free_decomp h p = Inr (rc, h', p')"
  then show "rc = SMIOL_SUCCESS"
    by (simp add: free_decomp_code)
next
  assume valid: "h a = Some (Decomp_block d) \<and> table_ok h a (comp_list d) \<and> table_ok h a (io_list d)
        \<and> (comp_list d = None \<or> io_list d = None \<or> comp_list d \<noteq> io_list d)"
  from valid obtain h1 where h1: "free_ptr h (comp_list d) = Inr h1" "h1 a = h a"
      "\<forall>x. comp_list d = Some x \<longrightarrow> h1 x = None" "\<forall>x. Some x \<noteq> comp_list d \<longrightarrow> h1 x = h x"
    using free_table [of h a "comp_list d"] by blast
  have "table_ok h1 a (io_list d)"
    using valid h1(3,4) by (auto simp: table_ok_def split: option.splits)
  then obtain h2 where h2: "free_ptr h1 (io_list d) = Inr h2" "h2 a = h1 a"
      "\<forall>x. io_list d = Some x \<longrightarrow> h2 x = None" "\<forall>x. Some x \<noteq> io_list d \<longrightarrow> h2 x = h1 x"
    using free_table [of h1 a "io_list d"] by blast
  have live: "h2 a = Some (Decomp_block d)"
    using valid h1(2) h2(2) by simp
  have run: "SMIOL_free_decomp h (Some (Some a)) = Inr (SMIOL_SUCCESS, h2(a := None), Some None)"
    using valid h1(1,2) h2(1) live
    by (simp add: SMIOL_free_decomp_def deref_decomp_def free_ptr_Some)
  have c: "\<forall>x. comp_list d = Some x \<longrightarrow> (h2(a := None)) x = None"
    using h1(3) h2(3,4) by (metis fun_upd_apply)
  have i: "\<forall>x. io_list d = Some x \<longrightarrow> (h2(a := None)) x = None"
    using h2(3) by simp
  have rest: "\<forall>x. x \<noteq> a \<and> Some x \<noteq> comp_list d \<and> Some x \<noteq> io_list d \<longrightarrow> (h2(a := None)) x = h x"
    using h1(4) h2(4) by simp
  show "\<exists>h'. SMIOL_free_decomp h (Some (Some a)) = Inr (SMIOL_SUCCESS, h', Some None)
             \<and> h' a = None
             \<and> (\<forall>x. comp_list d = Some x \<longrightarrow> h' x = None)
             \<and> (\<forall>x. io_list d = Some x \<longrightarrow> h' x = None)
             \<and> (\<forall>x. x \<noteq> a \<and> Some x \<noteq> comp_list d \<and> Some x \<noteq> io_list d \<longrightarrow> h' x = h x)"
    using run c i rest by (intro exI [of _ "h2(a := None)"]) simp
qed

theorem free_decomp_always_succeeds_witness:
  "\<exists>h'. SMIOL_free_decomp example_decomp_heap (Some (Some 1)) = Inr (SMIOL_SUCCESS, h', Some None)
        \<and> h' 1 = None \<and> h' 2 = None \<and> h' 3 = None \<and> h' 4 = Some (Offset_block [42])"
proof -
  let ?d = "\<lparr>comp_list = Some 2, io_list = Some 3, io_start = 0, io_count = 4\<rparr>"
  have valid: "example_decomp_heap 1 = Some (Decomp_block ?d)
      \<and> table_ok example_decomp_heap 1 (comp_list ?d) \<and> table_ok example_decomp_heap 1 (io_list ?d)
      \<and> (comp_list ?d = None \<or> io_list ?d = None \<or> comp_list ?d \<noteq> io_list ?d)"
    by (simp add: example_decomp_heap_def table_ok_def)
  have four: "example_decomp_heap 4 = Some (Offset_block [42])"
    by (simp add: example_decomp_heap_def)
  from free_decomp_always_succeeds [of example_decomp_heap 1 ?d] valid
  obtain h' where run: "SMIOL_free_decomp example_decomp_heap (Some (Some 1)) = Inr (SMIOL_SUCCESS, h', Some None)"
    and gone: "h' 1 = None" "\<forall>x. comp_list ?d = Some x \<longrightarrow> h' x = None"
      "\<forall>x. io_list ?d = Some x \<longrightarrow> h' x = None"
    and kept: "\<forall>x. x \<noteq> 1 \<and> Some x \<noteq> comp_list ?d \<and> Some x \<noteq> io_list ?d \<longrightarrow> h' x = example_decomp_heap x"
    by blast
  have "h' 2 = None" "h' 3 = None"
    using gone by simp_all
  moreover have "h' 4 = Some (Offset_block [42])"
    using kept four by simp
  ultimately show ?thesis
    using run gone(1) by blast
qed

text \<open>
  C10. \<open>SMIOL_free_decomp\<close> reads \<^verbatim>\<open>*decomp\<close> before any check: on a null outer pointer
  it dereferences \<^verbatim>\<open>NULL\<close>, and that is the only input on which it does so. \<open>SMIOL_finalize\<close>
  and \<open>SMIOL_close_file\<close> test their outer pointer first and return \<open>SMIOL_SUCCESS\<close> on
  a null one, changing nothing.
\<close>

theorem free_decomp_needs_outer_pointer:
  "SMIOL_free_decomp h None = Inl Null_dereference
   \<and> (SMIOL_free_decomp h p = Inl Null_dereference) = (p = None)
   \<and> SMIOL_finalize comm_free h None = Inr (SMIOL_SUCCESS, h, None)
   \<and> SMIOL_close_file be h None = Inr (SMIOL_SUCCESS, h, None)"
proof -
  have inner: "SMIOL_free_decomp h (Some q) \<noteq> Inl Null_dereference" for q
  proof (cases q)
    case None
    then show ?thesis by (simp add: SMIOL_free_decomp_def)
  next
    case (Some a)
    have d: "deref_decomp g (Some a) \<noteq> Inl Null_dereference" for g
      by (simp add: deref_decomp_def split: option.split block.split)
    have f: "free_ptr g t \<noteq> Inl Null_dereference" for g t
      by (simp add: free_ptr_def split: option.split)
    show ?thesis
      unfolding Some SMIOL_free_decomp_def using d f
      by (simp split: sum.split) blast
  qed
  have null: "SMIOL_free_decomp g None = Inl Null_dereference" for g
    by (simp add: SMIOL_free_decomp_def)
  have iff: "(SMIOL_free_decomp h p = Inl Null_dereference) = (p = None)"
    using inner null by (cases p) simp_all
  have others: "SMIOL_finalize comm_free h None = Inr (SMIOL_SUCCESS, h, None)"
      "SMIOL_close_file be h None = Inr (SMIOL_SUCCESS, h, None)"
    by (simp_all add: SMIOL_finalize_def SMIOL_close_file_def)
  show ?thesis
    using null iff others by simp
qed

section \<open>Properties of the decomposition functions\<close>

subsection \<open>The loop that fills the I/O elements\<close>

lemma fill_in_bounds:
  "i \<le> cnt \<Longrightarrow> cnt \<le> length buf \<Longrightarrow>
   fill_io_elements sz start cnt i buf =
     Inr (take i buf @ map (\<lambda>j. Some (word_of_nat ((start + j) mod 2 ^ (8 * sz)))) [i..<cnt] @ drop cnt buf)"
proof (induction sz start cnt i buf rule: fill_io_elements.induct)
  case (1 sz start cnt i buf)
  show ?case
  proof (cases "i < cnt")
    case True
    with "1.prems" have ib: "i < length buf" by simp
    let ?v = "Some (word_of_nat ((start + i) mod 2 ^ (8 * sz)) :: SMIOL_Offset)"
    have step: "fill_io_elements sz start cnt i buf = fill_io_elements sz start cnt (Suc i) (buf[i := ?v])"
      using True ib by (subst fill_io_elements.simps) simp
    have ih: "fill_io_elements sz start cnt (Suc i) (buf[i := ?v]) =
        Inr (take (Suc i) (buf[i := ?v]) @ map (\<lambda>j. Some (word_of_nat ((start + j) mod 2 ^ (8 * sz)))) [Suc i..<cnt] @ drop cnt (buf[i := ?v]))"
      using "1.IH" [OF True ib] True "1.prems" by simp
    have t: "take (Suc i) (buf[i := ?v]) = take i buf @ [?v]"
      using ib by (simp add: take_Suc_conv_app_nth)
    have d: "drop cnt (buf[i := ?v]) = drop cnt buf"
      using True by simp
    have u: "[i..<cnt] = i # [Suc i..<cnt]"
      using True by (simp add: upt_conv_Cons)
    show ?thesis
      unfolding step ih t d u by simp
  next
    case False
    with "1.prems" have "i = cnt" by simp
    then show ?thesis
      by (subst fill_io_elements.simps) simp
  qed
qed

lemma fill_out_of_bounds:
  "i < cnt \<Longrightarrow> length buf < cnt \<Longrightarrow> fill_io_elements sz start cnt i buf = Inl Out_of_bounds"
proof (induction sz start cnt i buf rule: fill_io_elements.induct)
  case (1 sz start cnt i buf)
  show ?case
  proof (cases "i < length buf")
    case True
    then have "Suc i < cnt" using "1.prems" by simp
    then have "fill_io_elements sz start cnt (Suc i)
                 (buf[i := Some (word_of_nat ((start + i) mod 2 ^ (8 * sz)))]) = Inl Out_of_bounds"
      using "1.IH" [OF "1.prems"(1) True] "1.prems" by simp
    then show ?thesis
      using True "1.prems" by (subst fill_io_elements.simps) simp
  next
    case False
    then show ?thesis
      using "1.prems" by (subst fill_io_elements.simps) simp
  qed
qed

subsection \<open>The steps of \<open>SMIOL_create_decomp\<close>\<close>

lemma sint_offset_of_nat:
  "m < 2 ^ 63 \<Longrightarrow> sint (word_of_nat m :: SMIOL_Offset) = int m"
proof -
  assume m: "m < 2 ^ 63"
  have "int m < 2 ^ 63"
    using m by (metis of_nat_less_iff of_nat_numeral of_nat_power)
  then have "signed_take_bit 63 (int m) = int m"
    by (intro signed_take_bit_int_eq_self) simp_all
  then show ?thesis
    by (simp add: signed_of_nat)
qed

lemma dense_no_overflow:
  assumes "start + cnt \<le> 2 ^ 63" "start + cnt \<le> 2 ^ (8 * sz)"
  shows "map (\<lambda>j. sint (word_of_nat ((start + j) mod 2 ^ (8 * sz)) :: SMIOL_Offset)) [0..<cnt]
         = dense_sequence start cnt"
proof -
  have "sint (word_of_nat ((start + j) mod 2 ^ (8 * sz)) :: SMIOL_Offset) = int (start + j)"
    if "j < cnt" for j
  proof -
    have b: "start + j < 2 ^ (8 * sz)" "start + j < 2 ^ 63"
      using that assms by simp_all
    have "(start + j) mod 2 ^ (8 * sz) = start + j"
      using b(1) by simp
    then show ?thesis
      using sint_offset_of_nat [OF b(2)] by (simp only:)
  qed
  then have "map (\<lambda>j. sint (word_of_nat ((start + j) mod 2 ^ (8 * sz)) :: SMIOL_Offset)) [0..<cnt]
        = map (\<lambda>j. int (start + j)) [0..<cnt]"
    by (intro map_cong) simp_all
  also have "\<dots> = map int (map (\<lambda>j. start + j) [0..<cnt])"
    by simp
  also have "map (\<lambda>j. start + j) [0..<cnt] = [start..<start + cnt]"
    by (simp add: map_add_upt add.commute)
  finally show ?thesis
    by (simp add: dense_sequence_def)
qed

lemma make_io_elements_empty: "make_io_elements env ng start 0 = Inr (Some None)"
  by (simp add: make_io_elements_def)

lemma make_io_elements_failure:
  "0 < cnt \<Longrightarrow> \<not> malloc_ok env (io_elements_bytes (sizeof_size_t env) ng)
   \<Longrightarrow> make_io_elements env ng start cnt = Inr None"
  by (simp add: make_io_elements_def)

lemma make_io_elements_filled:
  assumes "0 < cnt" "malloc_ok env (io_elements_bytes (sizeof_size_t env) ng)"
    "cnt \<le> io_elements_bytes (sizeof_size_t env) ng div 8"
  shows "make_io_elements env ng start cnt =
     Inr (Some (Some (map (\<lambda>j. Some (word_of_nat ((start + j) mod 2 ^ (8 * sizeof_size_t env)))) [0..<cnt]
                      @ replicate (io_elements_bytes (sizeof_size_t env) ng div 8 - cnt) None)))"
  using assms fill_in_bounds [of 0 cnt "replicate (io_elements_bytes (sizeof_size_t env) ng div 8) None"
                                  "sizeof_size_t env" start]
  by (simp add: make_io_elements_def)

lemma make_io_elements_overrun:
  assumes "0 < cnt" "malloc_ok env (io_elements_bytes (sizeof_size_t env) ng)"
    "io_elements_bytes (sizeof_size_t env) ng div 8 < cnt"
  shows "make_io_elements env ng start cnt = Inl Out_of_bounds"
  using assms fill_out_of_bounds [of 0 cnt "replicate (io_elements_bytes (sizeof_size_t env) ng div 8) None"
                                  "sizeof_size_t env" start]
  by (simp add: make_io_elements_def)

lemma create_decomp_reaches_builder:
  assumes ctx: "h ca = Some (Context_block c)"
    and ce: "compute_elements \<noteq> None \<or> n = 0"
    and sz: "sizeof_size_t env = 8 \<or> sizeof_size_t env = 4 \<or> sizeof_size_t env = 2"
    and ar: "MPI_Allreduce env (fcomm c) n = Some ng"
    and gie: "get_io_elements env (comm_rank c) t s ng = (e, start, cnt)"
    and mk: "make_io_elements env ng start cnt = Inr (Some io_elems)"
  shows "SMIOL_create_decomp env h (Some ca) n compute_elements t s decomp =
           attach_window start cnt (build_exchange env (Some ca) n compute_elements cnt io_elems h decomp)"
proof -
  have nn: "(compute_elements = None \<and> n \<noteq> 0) = False"
    using ce by blast
  show ?thesis
    unfolding SMIOL_create_decomp_def nn
    using ctx sz ar gie mk
    by (simp add: deref_context_def)
qed

lemma attach_window_code:
  "attach_window start cnt (rc, h1, d1) = Inr (rc', h', d') \<Longrightarrow> rc' = rc \<and> d' = d1"
  by (auto simp: attach_window_def split: if_splits option.splits sum.splits)

lemma attach_window_failure:
  "rc \<noteq> SMIOL_SUCCESS \<Longrightarrow> attach_window start cnt (rc, h1, d1) = Inr (rc, h1, d1)"
  by (simp add: attach_window_def)

lemma attach_window_success:
  assumes "attach_window start cnt (rc, h1, d1) = Inr (SMIOL_SUCCESS, h', d')"
  shows "\<exists>a d. d' = Some (Some a) \<and> d1 = d' \<and> h1 a = Some (Decomp_block d)
             \<and> h' = h1(a \<mapsto> Decomp_block (d\<lparr>io_start := start, io_count := cnt\<rparr>))"
  using assms
  by (auto simp: attach_window_def deref_decomp_def split: if_splits option.splits sum.splits block.splits)

subsection \<open>Failing calls of \<open>SMIOL_create_decomp\<close>\<close>

lemmas example_simps = SMIOL_create_decomp_def example_env_def example_heap_def deref_context_def
      spec_get_io_elements_def io_elements_def is_io_rank_def io_block_def
      make_io_elements_filled make_io_elements_empty io_elements_bytes_def attach_window_def
      stub_build_exchange_def deref_decomp_def

lemma create_decomp_early_failures:
  assumes ctx: "h ca = Some (Context_block c)" and ce: "compute_elements \<noteq> None \<or> n = 0"
  shows "\<not> (sizeof_size_t env = 8 \<or> sizeof_size_t env = 4 \<or> sizeof_size_t env = 2) \<Longrightarrow>
           SMIOL_create_decomp env h (Some ca) n compute_elements t s decomp = Inr (SMIOL_MPI_ERROR, h, decomp)"
    and "sizeof_size_t env = 8 \<or> sizeof_size_t env = 4 \<or> sizeof_size_t env = 2 \<Longrightarrow>
         MPI_Allreduce env (fcomm c) n = None \<Longrightarrow>
           SMIOL_create_decomp env h (Some ca) n compute_elements t s decomp = Inr (SMIOL_MPI_ERROR, h, decomp)"
    and "sizeof_size_t env = 8 \<or> sizeof_size_t env = 4 \<or> sizeof_size_t env = 2 \<Longrightarrow>
         MPI_Allreduce env (fcomm c) n = Some ng \<Longrightarrow>
         get_io_elements env (comm_rank c) t s ng = (e, start, cnt) \<Longrightarrow>
         make_io_elements env ng start cnt = Inr None \<Longrightarrow>
           SMIOL_create_decomp env h (Some ca) n compute_elements t s decomp = Inr (SMIOL_MALLOC_FAILURE, h, decomp)"
proof -
  have nn: "(compute_elements = None \<and> n \<noteq> 0) = False"
    using ce by blast
  show "\<not> (sizeof_size_t env = 8 \<or> sizeof_size_t env = 4 \<or> sizeof_size_t env = 2) \<Longrightarrow>
           SMIOL_create_decomp env h (Some ca) n compute_elements t s decomp = Inr (SMIOL_MPI_ERROR, h, decomp)"
    unfolding SMIOL_create_decomp_def nn using ctx by (simp add: deref_context_def)
  show "sizeof_size_t env = 8 \<or> sizeof_size_t env = 4 \<or> sizeof_size_t env = 2 \<Longrightarrow>
         MPI_Allreduce env (fcomm c) n = None \<Longrightarrow>
           SMIOL_create_decomp env h (Some ca) n compute_elements t s decomp = Inr (SMIOL_MPI_ERROR, h, decomp)"
    unfolding SMIOL_create_decomp_def nn using ctx by (simp add: deref_context_def)
  show "sizeof_size_t env = 8 \<or> sizeof_size_t env = 4 \<or> sizeof_size_t env = 2 \<Longrightarrow>
         MPI_Allreduce env (fcomm c) n = Some ng \<Longrightarrow>
         get_io_elements env (comm_rank c) t s ng = (e, start, cnt) \<Longrightarrow>
         make_io_elements env ng start cnt = Inr None \<Longrightarrow>
           SMIOL_create_decomp env h (Some ca) n compute_elements t s decomp = Inr (SMIOL_MALLOC_FAILURE, h, decomp)"
    unfolding SMIOL_create_decomp_def nn using ctx by (simp add: deref_context_def)
qed

text \<open>
  C1. The claim is that a failing call leaves the caller's pointer null. The two argument
  checks of \<open>SMIOL_create_decomp\<close> return \<open>SMIOL_INVALID_ARGUMENT\<close> without writing
  \<^verbatim>\<open>*decomp\<close>: the caller's variable holds after the call what it held before, null or not.
\<close>

theorem create_decomp_failure_keeps_pointer:
  "SMIOL_create_decomp env h None n compute_elements t s decomp = Inr (SMIOL_INVALID_ARGUMENT, h, decomp)
   \<and> SMIOL_create_decomp env h (Some ca) (Suc n) None t s decomp = Inr (SMIOL_INVALID_ARGUMENT, h, decomp)
   \<and> SMIOL_create_decomp env h None 0 None 1 1 (Some (Some 9)) = Inr (SMIOL_INVALID_ARGUMENT, h, Some (Some 9))"
  by (simp add: SMIOL_create_decomp_def)

text \<open>
  C2. The claim is that an impossible policy makes \<open>SMIOL_create_decomp\<close> fail with the
  partitioner's \<open>SMIOL_INVALID_ARGUMENT\<close>. The code never reads the partitioner's return
  code: when the partitioner reports \<open>SMIOL_INVALID_ARGUMENT\<close> and the builder then
  succeeds, the call returns \<open>SMIOL_SUCCESS\<close> with a handle whose window is whatever the
  partitioner left in \<^verbatim>\<open>io_start\<close> and \<^verbatim>\<open>io_count\<close>.
\<close>

theorem create_decomp_drops_partitioner_error:
  assumes ctx: "h ca = Some (Context_block c)"
    and ce: "compute_elements \<noteq> None \<or> n = 0"
    and sz: "sizeof_size_t env = 8 \<or> sizeof_size_t env = 4 \<or> sizeof_size_t env = 2"
    and ar: "MPI_Allreduce env (fcomm c) n = Some ng"
    and gie: "get_io_elements env (comm_rank c) t s ng = (SMIOL_INVALID_ARGUMENT, start, cnt)"
    and mk: "make_io_elements env ng start cnt = Inr (Some io_elems)"
    and bex: "build_exchange env (Some ca) n compute_elements cnt io_elems h decomp = (SMIOL_SUCCESS, h1, Some (Some a))"
    and live: "h1 a = Some (Decomp_block d)"
  shows "SMIOL_create_decomp env h (Some ca) n compute_elements t s decomp =
           Inr (SMIOL_SUCCESS, h1(a \<mapsto> Decomp_block (d\<lparr>io_start := start, io_count := cnt\<rparr>)), Some (Some a))"
proof -
  have "SMIOL_create_decomp env h (Some ca) n compute_elements t s decomp =
          attach_window start cnt (build_exchange env (Some ca) n compute_elements cnt io_elems h decomp)"
    using ctx ce sz ar gie mk by (rule create_decomp_reaches_builder)
  then show ?thesis
    using bex live by (simp add: attach_window_def deref_decomp_def)
qed

theorem create_decomp_drops_partitioner_error_witness:
  "io_elements 4 0 3 2 0 = Inl SMIOL_INVALID_ARGUMENT
   \<and> get_io_elements example_env 0 3 2 0 = (SMIOL_INVALID_ARGUMENT, 0, 0)
   \<and> SMIOL_create_decomp example_env (example_heap 0) (Some 1) 0 None 3 2 (Some None) =
       Inr (SMIOL_SUCCESS,
            (example_heap 0)(7 \<mapsto> Decomp_block \<lparr>comp_list = None, io_list = None, io_start = 0, io_count = 0\<rparr>),
            Some (Some 7))"
  using create_decomp_drops_partitioner_error
    [of "example_heap 0" 1 "\<lparr>fcomm = 0, comm_size = 4, comm_rank = 0, lib_ierr = 0, lib_type = SMIOL_LIBRARY_UNKNOWN\<rparr>"
        None 0 example_env 0 3 2 0 0 None "Some None"
        "(example_heap 0)(7 \<mapsto> Decomp_block \<lparr>comp_list = None, io_list = None, io_start = 0, io_count = 0\<rparr>)"
        7 "\<lparr>comp_list = None, io_list = None, io_start = 0, io_count = 0\<rparr>"]
  by (simp add: example_env_def example_heap_def spec_get_io_elements_def io_elements_def
        make_io_elements_empty stub_build_exchange_def)

subsection \<open>What the builder receives\<close>

text \<open>
  C3. Whenever \<open>SMIOL_create_decomp\<close> gets as far as the exchange-plan builder, it hands
  it \<^verbatim>\<open>io_count\<close> and a buffer whose first \<^verbatim>\<open>io_count\<close> cells hold
  \<^verbatim>\<open>(SMIOL_Offset)(io_start + i)\<close> for \<open>i = 0, ..., io_count - 1\<close>, the values the
  partitioner left in \<^verbatim>\<open>io_start\<close> and \<^verbatim>\<open>io_count\<close>; with \<^verbatim>\<open>io_count = 0\<close> it hands a
  null pointer and the count 0. Read as signed integers the cells are the dense sequence
  \<open>io_start, ..., io_start + io_count - 1\<close> when that range fits in \<^verbatim>\<open>size_t\<close> and in
  63 bits.
\<close>

theorem create_decomp_hands_dense_io_elements:
  assumes ctx: "h ca = Some (Context_block c)"
    and ce: "compute_elements \<noteq> None \<or> n = 0"
    and sz: "sizeof_size_t env = 8 \<or> sizeof_size_t env = 4 \<or> sizeof_size_t env = 2"
    and ar: "MPI_Allreduce env (fcomm c) n = Some ng"
    and gie: "get_io_elements env (comm_rank c) t s ng = (e, start, cnt)"
    and mem: "cnt = 0 \<or> (malloc_ok env (io_elements_bytes (sizeof_size_t env) ng)
                          \<and> cnt \<le> io_elements_bytes (sizeof_size_t env) ng div 8)"
  shows "SMIOL_create_decomp env h (Some ca) n compute_elements t s decomp =
           attach_window start cnt
             (build_exchange env (Some ca) n compute_elements cnt
                (if cnt = 0 then None
                 else Some (map (\<lambda>j. Some (word_of_nat ((start + j) mod 2 ^ (8 * sizeof_size_t env)))) [0..<cnt]
                            @ replicate (io_elements_bytes (sizeof_size_t env) ng div 8 - cnt) None))
                h decomp)
         \<and> (start + cnt \<le> 2 ^ 63 \<and> start + cnt \<le> 2 ^ (8 * sizeof_size_t env) \<longrightarrow>
              map (\<lambda>j. sint (word_of_nat ((start + j) mod 2 ^ (8 * sizeof_size_t env)) :: SMIOL_Offset)) [0..<cnt]
                = dense_sequence start cnt)"
proof -
  let ?io = "if cnt = 0 then None
             else Some (map (\<lambda>j. Some (word_of_nat ((start + j) mod 2 ^ (8 * sizeof_size_t env)) :: SMIOL_Offset)) [0..<cnt]
                        @ replicate (io_elements_bytes (sizeof_size_t env) ng div 8 - cnt) None)"
  have mk: "make_io_elements env ng start cnt = Inr (Some ?io)"
  proof (cases "cnt = 0")
    case True
    then show ?thesis by (simp add: make_io_elements_empty)
  next
    case False
    then show ?thesis using mem by (simp add: make_io_elements_filled)
  qed
  have run: "SMIOL_create_decomp env h (Some ca) n compute_elements t s decomp =
               attach_window start cnt (build_exchange env (Some ca) n compute_elements cnt ?io h decomp)"
    using ctx ce sz ar gie mk by (rule create_decomp_reaches_builder)
  show ?thesis
    using run dense_no_overflow [of start cnt "sizeof_size_t env"] by blast
qed

theorem create_decomp_hands_dense_io_elements_witness:
  "SMIOL_create_decomp example_env (example_heap 2) (Some 1) 4 (Some 2) 2 2 (Some None) =
     attach_window 8 8
       (stub_build_exchange 7 (Some 1) 4 (Some 2) 8
          (Some ([Some 8, Some 9, Some 10, Some 11, Some 12, Some 13, Some 14, Some 15] @ replicate 8 None))
          (example_heap 2) (Some None))
   \<and> map (\<lambda>j. sint (word_of_nat ((8 + j) mod 2 ^ 64) :: SMIOL_Offset)) [0..<8] = dense_sequence 8 8
   \<and> dense_sequence 8 8 = [8, 9, 10, 11, 12, 13, 14, 15]"
  using create_decomp_hands_dense_io_elements
    [of "example_heap 2" 1 "\<lparr>fcomm = 0, comm_size = 4, comm_rank = 2, lib_ierr = 0, lib_type = SMIOL_LIBRARY_UNKNOWN\<rparr>"
        "Some 2" 4 example_env 16 2 2 SMIOL_SUCCESS 8 8 "Some None"]
  by (simp add: example_env_def example_heap_def spec_get_io_elements_def io_elements_def is_io_rank_def
        io_block_def io_elements_bytes_def dense_sequence_def upt_rec)

subsection \<open>Results of \<open>SMIOL_create_decomp\<close>\<close>

lemma create_decomp_result_cases:
  assumes "SMIOL_create_decomp env h cntxt n compute_elements t s decomp = Inr (rc, h', d')"
  shows "(rc = SMIOL_INVALID_ARGUMENT \<and> h' = h \<and> d' = decomp)
       \<or> (rc = SMIOL_MPI_ERROR \<and> h' = h \<and> d' = decomp)
       \<or> (rc = SMIOL_MALLOC_FAILURE \<and> h' = h \<and> d' = decomp)
       \<or> (\<exists>ca c ng e io_elems.
             cntxt = Some ca \<and> h ca = Some (Context_block c)
           \<and> MPI_Allreduce env (fcomm c) n = Some ng
           \<and> fst (get_io_elements env (comm_rank c) t s ng) = e
           \<and> attach_window (fst (snd (get_io_elements env (comm_rank c) t s ng)))
                            (snd (snd (get_io_elements env (comm_rank c) t s ng)))
                (build_exchange env cntxt n compute_elements
                   (snd (snd (get_io_elements env (comm_rank c) t s ng))) io_elems h decomp)
               = Inr (rc, h', d'))"
  using assms
  by (auto simp: SMIOL_create_decomp_def deref_context_def
           split: option.splits if_splits sum.splits prod.splits block.splits)

lemma create_decomp_returns:
  assumes ctx: "h ca = Some (Context_block c)"
    and part: "\<forall>ng. MPI_Allreduce env (fcomm c) n = Some ng \<longrightarrow>
                 snd (snd (get_io_elements env (comm_rank c) t s ng))
                   \<le> io_elements_bytes (sizeof_size_t env) ng div 8"
    and bex: "\<forall>cnt io_elems h1 d1.
                 build_exchange env (Some ca) n compute_elements cnt io_elems h decomp = (SMIOL_SUCCESS, h1, d1)
                 \<longrightarrow> (\<exists>a d. d1 = Some (Some a) \<and> h1 a = Some (Decomp_block d))"
  shows "\<exists>r. SMIOL_create_decomp env h (Some ca) n compute_elements t s decomp = Inr r"
proof (cases "compute_elements = None \<and> n \<noteq> 0")
  case True
  then show ?thesis by (simp add: SMIOL_create_decomp_def)
next
  case nn: False
  then have ce: "compute_elements \<noteq> None \<or> n = 0" by auto
  show ?thesis
  proof (cases "sizeof_size_t env = 8 \<or> sizeof_size_t env = 4 \<or> sizeof_size_t env = 2")
    case False
    then show ?thesis
      using create_decomp_early_failures(1) [where h=h and ca=ca and c=c, OF ctx ce] by blast
  next
    case sz: True
    show ?thesis
    proof (cases "MPI_Allreduce env (fcomm c) n")
      case None
      then show ?thesis
        using create_decomp_early_failures(2) [where h=h and ca=ca and c=c, OF ctx ce sz] by blast
    next
      case (Some ng)
      obtain e start cnt where gie: "get_io_elements env (comm_rank c) t s ng = (e, start, cnt)"
        by (cases "get_io_elements env (comm_rank c) t s ng") auto
      have fits: "cnt \<le> io_elements_bytes (sizeof_size_t env) ng div 8"
        using part Some gie by auto
      show ?thesis
      proof (cases "0 < cnt \<and> \<not> malloc_ok env (io_elements_bytes (sizeof_size_t env) ng)")
        case True
        then have "make_io_elements env ng start cnt = Inr None"
          by (simp add: make_io_elements_failure)
        then show ?thesis
          using create_decomp_early_failures(3) [where h=h and ca=ca and c=c, OF ctx ce sz Some gie] by blast
      next
        case False
        then have mem: "cnt = 0 \<or> (malloc_ok env (io_elements_bytes (sizeof_size_t env) ng)
                          \<and> cnt \<le> io_elements_bytes (sizeof_size_t env) ng div 8)"
          using fits by auto
        obtain io_elems where mk: "make_io_elements env ng start cnt = Inr (Some io_elems)"
          using mem by (cases "cnt = 0") (auto simp: make_io_elements_empty make_io_elements_filled)
        have run: "SMIOL_create_decomp env h (Some ca) n compute_elements t s decomp =
               attach_window start cnt (build_exchange env (Some ca) n compute_elements cnt io_elems h decomp)"
          using ctx ce sz Some gie mk by (rule create_decomp_reaches_builder)
        obtain rc h1 d1 where b: "build_exchange env (Some ca) n compute_elements cnt io_elems h decomp = (rc, h1, d1)"
          by (cases "build_exchange env (Some ca) n compute_elements cnt io_elems h decomp") auto
        show ?thesis
        proof (cases "rc = SMIOL_SUCCESS")
          case True
          then obtain a d where "d1 = Some (Some a)" "h1 a = Some (Decomp_block d)"
            using bex b by blast
          then show ?thesis
            using run b True by (simp add: attach_window_def deref_decomp_def)
        next
          case False
          then show ?thesis
            using run b by (simp add: attach_window_failure)
        qed
      qed
    qed
  qed
qed

text \<open>
  After a successful call the caller's pointer is a live handle whose \<^verbatim>\<open>io_start\<close> and
  \<^verbatim>\<open>io_count\<close> are the two values that the call of the partitioner left in the locals,
  for the rank of the context and the global element count. With the specification's
  partitioner and a valid policy, both fields are zero on a rank that is not an I/O rank.
\<close>

lemma create_decomp_attaches_window:
  assumes ok: "SMIOL_create_decomp env h cntxt n compute_elements t s decomp = Inr (SMIOL_SUCCESS, h', d')"
  shows "\<exists>ca c ng a d.
           cntxt = Some ca \<and> h ca = Some (Context_block c) \<and> MPI_Allreduce env (fcomm c) n = Some ng
         \<and> d' = Some (Some a) \<and> h' a = Some (Decomp_block d)
         \<and> (io_start d, io_count d) = snd (get_io_elements env (comm_rank c) t s ng)
         \<and> (\<forall>group_size left.
               get_io_elements env = spec_get_io_elements group_size left
               \<and> 0 < t \<and> 0 < s \<and> t * s \<le> group_size \<and> \<not> is_io_rank (comm_rank c) t s
               \<longrightarrow> io_start d = 0 \<and> io_count d = 0)"
proof -
  from create_decomp_result_cases [OF ok]
  obtain ca c ng io_elems where
    c: "cntxt = Some ca" "h ca = Some (Context_block c)" "MPI_Allreduce env (fcomm c) n = Some ng"
    and att: "attach_window (fst (snd (get_io_elements env (comm_rank c) t s ng)))
                            (snd (snd (get_io_elements env (comm_rank c) t s ng)))
                (build_exchange env cntxt n compute_elements
                   (snd (snd (get_io_elements env (comm_rank c) t s ng))) io_elems h decomp)
               = Inr (SMIOL_SUCCESS, h', d')"
    by auto
  let ?w = "snd (get_io_elements env (comm_rank c) t s ng)"
  obtain rc h1 d1 where b: "build_exchange env cntxt n compute_elements (snd ?w) io_elems h decomp = (rc, h1, d1)"
    by (cases "build_exchange env cntxt n compute_elements (snd ?w) io_elems h decomp") auto
  from att b attach_window_success [of "fst ?w" "snd ?w" rc h1 d1 h' d']
  obtain a d0 where h: "d' = Some (Some a)" "h1 a = Some (Decomp_block d0)"
      "h' = h1(a \<mapsto> Decomp_block (d0\<lparr>io_start := fst ?w, io_count := snd ?w\<rparr>))"
    by auto
  let ?d = "d0\<lparr>io_start := fst ?w, io_count := snd ?w\<rparr>"
  have win: "(io_start ?d, io_count ?d) = ?w" by simp
  have zero: "io_start ?d = 0 \<and> io_count ?d = 0"
    if "get_io_elements env = spec_get_io_elements group_size left
        \<and> 0 < t \<and> 0 < s \<and> t * s \<le> group_size \<and> \<not> is_io_rank (comm_rank c) t s"
    for group_size left
    using that by (simp add: spec_get_io_elements_def io_elements_def)
  have "h' a = Some (Decomp_block ?d)"
    using h(3) by simp
  then show ?thesis
    using c h(1) win zero by blast
qed

lemma create_decomp_attaches_window_example:
  "SMIOL_create_decomp example_env (example_heap 2) (Some 1) 4 (Some 2) 2 2 (Some None) =
     Inr (SMIOL_SUCCESS,
          (example_heap 2)(7 \<mapsto> Decomp_block \<lparr>comp_list = None, io_list = None, io_start = 8, io_count = 8\<rparr>),
          Some (Some 7))
   \<and> get_io_elements example_env 2 2 2 16 = (SMIOL_SUCCESS, 8, 8)
   \<and> SMIOL_create_decomp example_env (example_heap 1) (Some 1) 4 (Some 2) 2 2 (Some None) =
     Inr (SMIOL_SUCCESS,
          (example_heap 1)(7 \<mapsto> Decomp_block \<lparr>comp_list = None, io_list = None, io_start = 0, io_count = 0\<rparr>),
          Some (Some 7))
   \<and> is_io_rank 1 2 2 = False"
  using create_decomp_attaches_window
    [of example_env "example_heap 1" "Some 1" 4 "Some 2" 2 2 "Some None"
        "(example_heap 1)(7 \<mapsto> Decomp_block \<lparr>comp_list = None, io_list = None, io_start = 0, io_count = 0\<rparr>)"
        "Some (Some 7)"]
  by (simp add: example_simps)


text \<open>
  C7. Provided the exchange-plan builder returns one of the four codes, so does
  \<open>SMIOL_create_decomp\<close> whenever it returns; a null context, and a null array of compute
  elements with a nonzero count, give \<open>SMIOL_INVALID_ARGUMENT\<close>.
\<close>

theorem create_decomp_return_codes:
  assumes bex: "\<forall>c m ce cnt io_elems g d.
      fst (build_exchange env c m ce cnt io_elems g d)
        \<in> {SMIOL_SUCCESS, SMIOL_INVALID_ARGUMENT, SMIOL_MALLOC_FAILURE, SMIOL_MPI_ERROR}"
  shows "(SMIOL_create_decomp env h cntxt n compute_elements t s decomp = Inr (rc, h', d')
            \<longrightarrow> rc \<in> {SMIOL_SUCCESS, SMIOL_INVALID_ARGUMENT, SMIOL_MALLOC_FAILURE, SMIOL_MPI_ERROR})
       \<and> SMIOL_create_decomp env h None n compute_elements t s decomp = Inr (SMIOL_INVALID_ARGUMENT, h, decomp)
       \<and> (n \<noteq> 0 \<longrightarrow>
            SMIOL_create_decomp env h (Some ca) n None t s decomp = Inr (SMIOL_INVALID_ARGUMENT, h, decomp))"
proof (intro conjI impI)
  assume r: "SMIOL_create_decomp env h cntxt n compute_elements t s decomp = Inr (rc, h', d')"
  from create_decomp_result_cases [OF r]
  consider "rc = SMIOL_INVALID_ARGUMENT" | "rc = SMIOL_MPI_ERROR" | "rc = SMIOL_MALLOC_FAILURE"
    | start cnt io_elems where
      "attach_window start cnt (build_exchange env cntxt n compute_elements cnt io_elems h decomp) = Inr (rc, h', d')"
    by blast
  then show "rc \<in> {SMIOL_SUCCESS, SMIOL_INVALID_ARGUMENT, SMIOL_MALLOC_FAILURE, SMIOL_MPI_ERROR}"
  proof cases
    case 4
    obtain rc1 h1 d1 where b: "build_exchange env cntxt n compute_elements cnt io_elems h decomp = (rc1, h1, d1)"
      by (cases "build_exchange env cntxt n compute_elements cnt io_elems h decomp") auto
    have "rc = rc1"
      using 4 b attach_window_code [of start cnt rc1 h1 d1 rc h' d'] by simp
    moreover have "rc1 \<in> {SMIOL_SUCCESS, SMIOL_INVALID_ARGUMENT, SMIOL_MALLOC_FAILURE, SMIOL_MPI_ERROR}"
      using bex b by (metis fst_conv)
    ultimately show ?thesis by simp
  qed simp_all
next
  show "SMIOL_create_decomp env h None n compute_elements t s decomp = Inr (SMIOL_INVALID_ARGUMENT, h, decomp)"
    by (simp add: SMIOL_create_decomp_def)
next
  assume "n \<noteq> 0"
  then show "SMIOL_create_decomp env h (Some ca) n None t s decomp = Inr (SMIOL_INVALID_ARGUMENT, h, decomp)"
    by (simp add: SMIOL_create_decomp_def)
qed

theorem create_decomp_return_codes_witness:
  "SMIOL_create_decomp example_env (example_heap 0) (Some 1) 4 (Some 2) 2 2 (Some None) =
     Inr (SMIOL_SUCCESS,
          (example_heap 0)(7 \<mapsto> Decomp_block \<lparr>comp_list = None, io_list = None, io_start = 0, io_count = 8\<rparr>),
          Some (Some 7))
   \<and> SMIOL_SUCCESS \<in> {SMIOL_SUCCESS, SMIOL_INVALID_ARGUMENT, SMIOL_MALLOC_FAILURE, SMIOL_MPI_ERROR}
   \<and> SMIOL_create_decomp example_env (example_heap 0) None 4 (Some 2) 2 2 (Some None) =
       Inr (SMIOL_INVALID_ARGUMENT, example_heap 0, Some None)
   \<and> SMIOL_create_decomp example_env (example_heap 0) (Some 1) 4 None 2 2 (Some None) =
       Inr (SMIOL_INVALID_ARGUMENT, example_heap 0, Some None)"
  using create_decomp_return_codes
    [of example_env "example_heap 0" "Some 1" 4 "Some 2" 2 2 "Some None" SMIOL_SUCCESS
        "(example_heap 0)(7 \<mapsto> Decomp_block \<lparr>comp_list = None, io_list = None, io_start = 0, io_count = 8\<rparr>)"
        "Some (Some 7)" 1]
  by (simp add: example_simps)

section \<open>Properties of the partitioner\<close>

lemma io_block_closed:
  "0 < T \<Longrightarrow> io_block n T k = n div T + (if k < n mod T then 1 else 0)"
proof -
  assume T: "0 < T"
  show ?thesis
  proof (cases "k < n mod T")
    case True
    then have r: "0 < n mod T" by simp
    have "n + T - 1 = (n div T) * T + (n mod T + T - 1)"
      using T r by (simp add: algebra_simps)
    moreover have "(n mod T + T - 1) div T = 1"
    proof -
      have lt: "n mod T < T" using T by simp
      have "T * 1 \<le> n mod T + T - 1" using r by simp
      moreover have "n mod T + T - 1 < T * Suc 1" using lt by simp
      ultimately show ?thesis
        by (rule div_nat_eqI)
    qed
    ultimately have "(n + T - 1) div T = n div T + 1"
      using T by (metis div_mult_self3 less_numeral_extra(3))
    then show ?thesis
      using True by (simp add: io_block_def)
  next
    case False
    then show ?thesis by (simp add: io_block_def)
  qed
qed

lemma io_block_prefix_sum:
  "0 < T \<Longrightarrow> sum_list (map (io_block n T) [0..<k]) = k * (n div T) + min k (n mod T)"
proof (induction k)
  case 0
  then show ?case by simp
next
  case (Suc k)
  then show ?case
    by (simp add: io_block_closed min_def)
qed

lemma io_block_total: "0 < T \<Longrightarrow> sum_list (map (io_block n T) [0..<T]) = n"
proof -
  assume T: "0 < T"
  have "n mod T < T" using T by simp
  then have "min T (n mod T) = n mod T" by simp
  then show ?thesis
    using io_block_prefix_sum [OF T, of n T] by (simp add: mult.commute)
qed

lemma is_io_rank_multiple:
  "0 < s \<Longrightarrow> int k < T \<Longrightarrow> is_io_rank (int k * s) T s \<and> nat ((int k * s) div s) = k"
proof -
  assume s: "0 < s" and k: "int k < T"
  have "int k * s < T * s" using s k by simp
  moreover have "0 \<le> int k * s" using s by simp
  ultimately show ?thesis
    using s k by (simp add: is_io_rank_def)
qed

text \<open>
  C8. For a valid policy (\<open>0 < num_io_tasks\<close>, \<open>0 < io_stride\<close>,
  \<open>num_io_tasks * io_stride\<close> at most the group size) the \<open>k\<close>-th I/O rank, which is the
  rank \<open>k * io_stride\<close>, receives the \<open>k\<close>-th block, and \<open>io_start\<close> is the sum of the
  blocks before it. The block has \<open>n_global div num_io_tasks + 1\<close> elements, the quotient
  rounded up, for the first \<open>n_global mod num_io_tasks\<close> I/O ranks and
  \<open>n_global div num_io_tasks\<close> for the others, so that
  \<open>io_start = k * (n_global div num_io_tasks) + min k (n_global mod num_io_tasks)\<close>. The
  blocks add up to \<open>n_global\<close>. Every rank that is not an I/O rank receives \<open>(0, 0)\<close>.
  With group size 2, \<open>n_global = 5\<close>, two I/O tasks and stride 1, rank 0 receives \<open>(0, 3)\<close>
  and rank 1 receives \<open>(3, 2)\<close>.
\<close>

theorem io_elements_block_partition:
  assumes T: "0 < T" and s: "0 < s" and P: "T * s \<le> P"
  shows "(\<forall>k. int k < T \<longrightarrow>
            io_elements P (int k * s) T s n
              = Inr (sum_list (map (io_block n (nat T)) [0..<k]), io_block n (nat T) k)
          \<and> io_block n (nat T) k = (if k < n mod nat T then n div nat T + 1 else n div nat T)
          \<and> (k < n mod nat T \<longrightarrow>
                nat T * (io_block n (nat T) k - 1) < n \<and> n \<le> nat T * io_block n (nat T) k)
          \<and> sum_list (map (io_block n (nat T)) [0..<k]) = k * (n div nat T) + min k (n mod nat T))
       \<and> sum_list (map (io_block n (nat T)) [0..<nat T]) = n
       \<and> (\<forall>r. \<not> is_io_rank r T s \<longrightarrow> io_elements P r T s n = Inr (0, 0))
       \<and> io_elements 2 0 2 1 5 = Inr (0, 3)
       \<and> io_elements 2 1 2 1 5 = Inr (3, 2)"
proof -
  have nT: "0 < nat T" using T by simp
  have valid: "\<not> (T \<le> 0 \<or> s \<le> 0 \<or> P < T * s)"
    using T s P by simp
  have blocks: "io_elements P (int k * s) T s n
              = Inr (sum_list (map (io_block n (nat T)) [0..<k]), io_block n (nat T) k)
          \<and> io_block n (nat T) k = (if k < n mod nat T then n div nat T + 1 else n div nat T)
          \<and> (k < n mod nat T \<longrightarrow>
                nat T * (io_block n (nat T) k - 1) < n \<and> n \<le> nat T * io_block n (nat T) k)
          \<and> sum_list (map (io_block n (nat T)) [0..<k]) = k * (n div nat T) + min k (n mod nat T)"
    if k: "int k < T" for k
  proof -
    have a: "io_elements P (int k * s) T s n
              = Inr (sum_list (map (io_block n (nat T)) [0..<k]), io_block n (nat T) k)"
      using valid is_io_rank_multiple [OF s k] by (simp add: io_elements_def)
    have b: "io_block n (nat T) k = (if k < n mod nat T then n div nat T + 1 else n div nat T)"
      using io_block_closed [OF nT, of n k] by simp
    have c: "nat T * (io_block n (nat T) k - 1) < n \<and> n \<le> nat T * io_block n (nat T) k"
      if r: "k < n mod nat T"
    proof -
      have blk: "io_block n (nat T) k = n div nat T + 1" using b r by simp
      have n: "n = nat T * (n div nat T) + n mod nat T" by simp
      have pos: "0 < n mod nat T" using r by simp
      have lt: "n mod nat T < nat T" using nT by simp
      have "nat T * (n div nat T) < n" using n pos by linarith
      moreover have "n \<le> nat T * (n div nat T + 1)"
        using n lt by (metis add.commute add_le_cancel_left less_imp_le_nat mult.commute mult_Suc Suc_eq_plus1)
      ultimately show ?thesis using blk by simp
    qed
    show ?thesis
      using a b c io_block_prefix_sum [OF nT, of n k] by blast
  qed
  have rest: "io_elements P r T s n = Inr (0, 0)" if "\<not> is_io_rank r T s" for r
    using that valid by (simp add: io_elements_def)
  have s4: "io_elements 2 0 2 1 5 = Inr (0, 3)" "io_elements 2 1 2 1 5 = Inr (3, 2)"
    by (simp_all add: io_elements_def is_io_rank_def io_block_def)
  show ?thesis
    using blocks io_block_total [OF nT, of n] rest s4 by blast
qed

theorem io_elements_block_partition_witness:
  "io_elements 8 0 3 2 17 = Inr (0, 6) \<and> io_elements 8 2 3 2 17 = Inr (6, 6)
   \<and> io_elements 8 4 3 2 17 = Inr (12, 5) \<and> io_elements 8 5 3 2 17 = Inr (0, 0)
   \<and> sum_list (map (io_block 17 3) [0..<3]) = 17"
proof -
  have pol: "(0::int) < 3" "(0::int) < 2" "(3::int) * 2 \<le> 8"
    by simp_all
  note t = io_elements_block_partition [OF pol, of 17]
  have total: "sum_list (map (io_block 17 3) [0..<3]) = 17"
    using t by simp
  have "\<not> is_io_rank 5 3 2"
    by (simp add: is_io_rank_def)
  then have five: "io_elements 8 5 3 2 17 = Inr (0, 0)"
    using t by blast
  have blocks: "io_block 17 3 0 = 6" "io_block 17 3 1 = 6" "io_block 17 3 2 = 5"
    by (simp_all add: io_block_def)
  note b = t [THEN conjunct1, rule_format]
  have r0: "io_elements 8 0 3 2 17 = Inr (sum_list (map (io_block 17 3) [0..<0]), io_block 17 3 0)"
    using b [of 0] by simp
  have r1: "io_elements 8 2 3 2 17 = Inr (sum_list (map (io_block 17 3) [0..<1]), io_block 17 3 1)"
    using b [of 1] by simp
  have r2: "io_elements 8 4 3 2 17 = Inr (sum_list (map (io_block 17 3) [0..<2]), io_block 17 3 2)"
    using b [of 2] by simp
  show ?thesis
    using r0 r1 r2 five total blocks by (simp add: upt_rec)
qed

section \<open>Properties of \<open>SMIOL_put_var\<close> and \<open>SMIOL_get_var\<close>\<close>

lemma library_error_code:
  "library_error h f ierr out = Inr (rc, h1, out1) \<Longrightarrow> rc = SMIOL_LIBRARY_ERROR \<and> out1 = out"
  by (auto simp: library_error_def split: sum.splits)

lemma inquire_var_success_heap:
  assumes "SMIOL_inquire_var be h file varname wt wn dn = Inr (SMIOL_SUCCESS, h1, info)"
  shows "h1 = h"
  using assms
  by (auto simp: SMIOL_inquire_var_def Let_def
           split: option.splits if_splits sum.splits step.splits
           dest!: library_error_code)

lemma inquire_dim_success_heap:
  assumes "SMIOL_inquire_dim be h file dimname wd wu = Inr (SMIOL_SUCCESS, h1, out)"
  shows "h1 = h"
  using assms
  by (auto simp: SMIOL_inquire_dim_def Let_def
           split: option.splits if_splits sum.splits
           dest!: library_error_code)

lemma slab_body_extends:
  assumes "slab_body be h file decomp names i s = Inr (Inr s1)"
  shows "\<exists>x y. slab_start s1 = slab_start s @ [x] \<and> slab_count s1 = slab_count s @ [y]"
  using assms
  by (auto simp: slab_body_def split: if_splits sum.splits option.splits prod.splits)

lemma slab_loop_extends:
  "slab_loop be h file decomp names idx s = Inr (Inr s1) \<Longrightarrow>
   \<exists>xs ys. slab_start s1 = slab_start s @ xs \<and> slab_count s1 = slab_count s @ ys
          \<and> length xs = length idx \<and> length ys = length idx"
proof (induction idx arbitrary: s)
  case Nil
  then show ?case by simp
next
  case (Cons i rest)
  from Cons.prems obtain s0 where b: "slab_body be h file decomp names i s = Inr (Inr s0)"
    and l: "slab_loop be h file decomp names rest s0 = Inr (Inr s1)"
    by (auto split: sum.splits)
  from slab_body_extends [OF b] obtain x y where
    x: "slab_start s0 = slab_start s @ [x]" "slab_count s0 = slab_count s @ [y]" by blast
  from Cons.IH [OF l] obtain xs ys where
    xs: "slab_start s1 = slab_start s0 @ xs" "slab_count s1 = slab_count s0 @ ys"
        "length xs = length rest" "length ys = length rest" by blast
  show ?case
    using x xs by (intro exI [of _ "x # xs"] exI [of _ "y # ys"]) simp
qed

lemma slab_body_decomp:
  assumes "h da = Some (Decomp_block d)"
  shows "slab_body be h file (Some da) names 0 s =
           Inr (Inr (s\<lparr>slab_start := slab_start s @ [io_start d], slab_count := slab_count s @ [io_count d]\<rparr>))"
  using assms by (simp add: slab_body_def deref_decomp_def)

lemma slab_loop_decomp:
  assumes d: "h da = Some (Decomp_block d)"
    and run: "slab_loop be h file (Some da) names [0..<n]
                \<lparr>slab_start = [], slab_count = [], slab_inner = 1, slab_dimsize = None, slab_unlimited = None\<rparr>
              = Inr (Inr s)"
  shows "(n = 0 \<and> slab_start s = [] \<and> slab_count s = [])
       \<or> (\<exists>st ct. slab_start s = io_start d # st \<and> slab_count s = io_count d # ct
              \<and> length st = n - 1 \<and> length ct = n - 1)"
proof (cases n)
  case 0
  then show ?thesis using run by auto
next
  case (Suc m)
  then have idx: "[0..<n] = 0 # [1..<n]"
    by (simp add: upt_rec)
  let ?s0 = "\<lparr>slab_start = [], slab_count = [], slab_inner = 1, slab_dimsize = None, slab_unlimited = None :: int option\<rparr>"
  let ?s1 = "?s0\<lparr>slab_start := slab_start ?s0 @ [io_start d], slab_count := slab_count ?s0 @ [io_count d]\<rparr>"
  have "slab_loop be h file (Some da) names [1..<n] ?s1 = Inr (Inr s)"
    using run slab_body_decomp [where h=h and da=da and d=d, OF d] unfolding idx by simp
  from slab_loop_extends [OF this] obtain xs ys where
    "slab_start s = [io_start d] @ xs" "slab_count s = [io_count d] @ ys"
    "length xs = length [1..<n]" "length ys = length [1..<n]"
    by auto
  then show ?thesis by simp
qed

lemma var_hyperslab_decomp:
  assumes d: "h da = Some (Decomp_block d)"
    and run: "var_hyperslab be h file (Some da) varname = Inr (Inr (vartype, s))"
  shows "(slab_start s = [] \<and> slab_count s = [])
       \<or> (\<exists>st ct. slab_start s = io_start d # st \<and> slab_count s = io_count d # ct)"
proof -
  from run obtain h1 info ndims h2 info2 where
    a: "SMIOL_inquire_var be h file varname True True None = Inr (SMIOL_SUCCESS, h1, info)"
    and b: "SMIOL_inquire_var be h1 file varname False False (Some (replicate (nat ndims) (Some 64))) = Inr (SMIOL_SUCCESS, h2, info2)"
    and l: "slab_loop be h2 file (Some da) (dimnames_out info2) [0..<nat ndims]
                \<lparr>slab_start = [], slab_count = [], slab_inner = 1, slab_dimsize = None, slab_unlimited = None\<rparr>
              = Inr (Inr s)"
    by (auto simp: var_hyperslab_def split: sum.splits if_splits option.splits prod.splits)
  have "h2 = h"
    using inquire_var_success_heap [OF a] inquire_var_success_heap [OF b] by simp
  then have l': "slab_loop be h file (Some da) (dimnames_out info2) [0..<nat ndims]
                \<lparr>slab_start = [], slab_count = [], slab_inner = 1, slab_dimsize = None, slab_unlimited = None\<rparr>
              = Inr (Inr s)"
    using l by simp
  from slab_loop_decomp [where h=h and da=da and d=d, OF d l'] show ?thesis
    by auto
qed

lemma io_buf_dsize_count:
  "io_buf_dsize be vartype s = Inr dsize \<Longrightarrow> slab_count s \<noteq> []"
  by (auto simp: io_buf_dsize_def split: option.splits list.splits)

lemma put_var_store_trace:
  assumes "put_var_store be h fa name s data tr = Inr (rc, h', tr')"
  shows "(tr' = tr \<and> rc = SMIOL_LIBRARY_ERROR)
       \<or> (\<exists>ncid varid. tr' = tr @ [Put_vara_all ncid varid (slab_start s) (slab_count s) data])"
  using assms
  by (auto simp: put_var_store_def split: sum.splits option.splits dest!: library_error_code)

lemma slab_body_early:
  "slab_body be h file decomp names i s = Inr (Inl (ierr, h1)) \<Longrightarrow> ierr \<noteq> SMIOL_SUCCESS"
  by (auto simp: slab_body_def split: if_splits sum.splits option.splits prod.splits)

lemma slab_loop_early:
  "slab_loop be h file decomp names idx s = Inr (Inl (ierr, h1)) \<Longrightarrow> ierr \<noteq> SMIOL_SUCCESS"
proof (induction idx arbitrary: s)
  case Nil
  then show ?case by simp
next
  case (Cons i rest)
  then show ?case
    by (auto split: sum.splits dest: slab_body_early)
qed

lemma var_hyperslab_early:
  "var_hyperslab be h file decomp varname = Inr (Inl (ierr, h1)) \<Longrightarrow> ierr \<noteq> SMIOL_SUCCESS"
  by (auto simp: var_hyperslab_def split: sum.splits if_splits option.splits prod.splits
           dest: slab_loop_early)

lemma put_var_cases:
  assumes "SMIOL_put_var be h file (Some da) varname buf = Inr (rc, h', tr)"
  shows "(tr = [] \<and> (pnetcdf be \<longrightarrow> rc \<noteq> SMIOL_SUCCESS))
       \<or> (\<exists>vartype s dsize.
             var_hyperslab be h file (Some da) varname = Inr (Inr (vartype, s))
           \<and> io_buf_dsize be vartype s = Inr dsize
           \<and> ((tr = [Transfer_field da SMIOL_COMP_TO_IO (element_size be dsize (slab_inner s)) Caller_buf Io_buf]
                \<and> rc \<noteq> SMIOL_SUCCESS)
              \<or> (\<exists>ncid varid.
                    tr = [Transfer_field da SMIOL_COMP_TO_IO (element_size be dsize (slab_inner s)) Caller_buf Io_buf,
                          Put_vara_all ncid varid (slab_start s) (slab_count s) Io_buf])))"
proof (cases "file = None \<or> varname = None \<or> buf = False \<or> pnetcdf be = False")
  case True
  then show ?thesis
    using assms by (auto simp: SMIOL_put_var_def split: option.splits if_splits)
next
  case False
  then obtain fa name where f: "file = Some fa" "varname = Some name" "buf" and True: "pnetcdf be"
    by auto
  show ?thesis
  proof (cases "var_hyperslab be h file (Some da) varname")
    case (Inl e)
    then show ?thesis
      using assms f True by (simp add: SMIOL_put_var_def)
  next
    case (Inr r)
    show ?thesis
    proof (cases r)
      case (Inl early)
      obtain ierr h1 where "early = (ierr, h1)" by (cases early)
      moreover have "ierr \<noteq> SMIOL_SUCCESS"
        using Inr Inl calculation var_hyperslab_early [of be h "file" "Some da" varname ierr h1] by simp
      ultimately show ?thesis
        using assms f True Inr Inl by (simp add: SMIOL_put_var_def)
    next
      case (Inr vs)
      obtain vartype s where vs: "vs = (vartype, s)" by (cases vs)
      note hy = \<open>var_hyperslab be h file (Some da) varname = Inr r\<close> [unfolded Inr vs]
      show ?thesis
      proof (cases "io_buf_dsize be vartype s")
        case (Inl e)
        then show ?thesis
          using assms f True hy by (simp add: SMIOL_put_var_def)
      next
        case (Inr dsize)
        let ?es = "element_size be dsize (slab_inner s)"
        let ?T = "Transfer_field da SMIOL_COMP_TO_IO ?es Caller_buf Io_buf"
        show ?thesis
        proof (cases "transfer_field be h da SMIOL_COMP_TO_IO ?es Caller_buf Io_buf = SMIOL_SUCCESS")
          case False
          then have "tr = [?T] \<and> rc \<noteq> SMIOL_SUCCESS"
            using assms f True hy Inr by (auto simp: SMIOL_put_var_def)
          then show ?thesis
            using hy Inr by blast
        next
          case ok: True
          have "put_var_store be h fa name s Io_buf [?T] = Inr (rc, h', tr)"
            using assms f True hy Inr ok by (simp add: SMIOL_put_var_def)
          from put_var_store_trace [OF this]
          have "(tr = [?T] \<and> rc \<noteq> SMIOL_SUCCESS)
              \<or> (\<exists>ncid varid. tr = [?T, Put_vara_all ncid varid (slab_start s) (slab_count s) Io_buf])"
            by auto
          then show ?thesis
            using hy Inr by blast
        qed
      qed
    qed
  qed
qed

lemma get_var_cases:
  assumes "SMIOL_get_var be h file (Some da) varname buf = Inr (rv, h', tr)"
  shows "(tr = [] \<and> (pnetcdf be \<longrightarrow> rv \<noteq> Code SMIOL_SUCCESS))
       \<or> (\<exists>vartype s dsize ncid varid.
             var_hyperslab be h file (Some da) varname = Inr (Inr (vartype, s))
           \<and> io_buf_dsize be vartype s = Inr dsize
           \<and> ((tr = [Get_vara_all ncid varid (slab_start s) (slab_count s) Io_buf]
                \<and> rv \<noteq> Code SMIOL_SUCCESS)
              \<or> tr = [Get_vara_all ncid varid (slab_start s) (slab_count s) Io_buf,
                       Transfer_field da SMIOL_IO_TO_COMP (element_size be dsize (slab_inner s)) Io_buf Caller_buf]))"
proof (cases "file = None \<or> varname = None \<or> buf = False \<or> pnetcdf be = False")
  case True
  then show ?thesis
    using assms by (auto simp: SMIOL_get_var_def split: option.splits if_splits)
next
  case False
  then obtain fa name where f: "file = Some fa" "varname = Some name" "buf" and pn: "pnetcdf be"
    by auto
  show ?thesis
  proof (cases "var_hyperslab be h file (Some da) varname")
    case (Inl e)
    then show ?thesis
      using assms f pn by (simp add: SMIOL_get_var_def)
  next
    case (Inr r)
    show ?thesis
    proof (cases r)
      case (Inl early)
      obtain ierr h1 where "early = (ierr, h1)" by (cases early)
      moreover have "ierr \<noteq> SMIOL_SUCCESS"
        using Inr Inl calculation var_hyperslab_early [of be h "file" "Some da" varname ierr h1] by simp
      ultimately show ?thesis
        using assms f pn Inr Inl by (auto simp: SMIOL_get_var_def)
    next
      case (Inr vs)
      obtain vartype s where vs: "vs = (vartype, s)" by (cases vs)
      note hy = \<open>var_hyperslab be h file (Some da) varname = Inr r\<close> [unfolded Inr vs]
      have run: "(case deref_file h (Some fa) of Inl e \<Rightarrow> Inl e | Inr f \<Rightarrow>
                case ncmpi_inq_varid be (ncidp f) name of
                  Inl ierr \<Rightarrow>
                    (case set_lib_error h f ierr of
                       Inl e \<Rightarrow> Inl e
                     | Inr h1 \<Rightarrow> Inr (Code SMIOL_LIBRARY_ERROR, h1, []))
                | Inr varidp \<Rightarrow>
                    (case leave_define_mode be h fa f of
                       Inl ierr \<Rightarrow>
                         (case set_lib_error h f ierr of
                            Inl e \<Rightarrow> Inl e
                          | Inr h1 \<Rightarrow> Inr (Library_kind SMIOL_LIBRARY_PNETCDF, h1, []))
                     | Inr h1 \<Rightarrow>
                              (case io_buf_dsize be vartype s of
                                 Inl e \<Rightarrow> Inl e
                               | Inr dsize \<Rightarrow>
                                   (case ncmpi_get_vara_all be (ncidp f) varidp (slab_start s) (slab_count s) Io_buf of
                                      Some ierr \<Rightarrow>
                                        (case set_lib_error h1 f ierr of
                                           Inl e \<Rightarrow> Inl e
                                         | Inr h2 \<Rightarrow>
                                             Inr (Code SMIOL_LIBRARY_ERROR, h2,
                                                  [Get_vara_all (ncidp f) varidp (slab_start s) (slab_count s) Io_buf]))
                                    | None \<Rightarrow>
                                        Inr (Code SMIOL_SUCCESS, h1,
                                             [Get_vara_all (ncidp f) varidp (slab_start s) (slab_count s) Io_buf,
                                              Transfer_field da SMIOL_IO_TO_COMP
                                                (element_size be dsize (slab_inner s)) Io_buf Caller_buf])))))
              = Inr (rv, h', tr)"
        using assms f pn hy by (simp add: SMIOL_get_var_def cong: sum.case_cong)
      show ?thesis
      proof (cases "io_buf_dsize be vartype s")
        case (Inl e)
        then have "tr = [] \<and> rv \<noteq> Code SMIOL_SUCCESS"
          using run by (auto split: sum.splits option.splits)
        then show ?thesis by simp
      next
        case (Inr dsize)
        let ?T = "Transfer_field da SMIOL_IO_TO_COMP (element_size be dsize (slab_inner s)) Io_buf Caller_buf"
        have "(tr = [] \<and> rv \<noteq> Code SMIOL_SUCCESS)
            \<or> (\<exists>ncid varid.
                 (tr = [Get_vara_all ncid varid (slab_start s) (slab_count s) Io_buf] \<and> rv \<noteq> Code SMIOL_SUCCESS)
               \<or> tr = [Get_vara_all ncid varid (slab_start s) (slab_count s) Io_buf, ?T])"
          using run Inr by (auto split: sum.splits option.splits)
        then show ?thesis
          using hy Inr by blast
      qed
    qed
  qed
qed

lemmas file_example_simps =
  example_file_env_def example_file_heap_def SMIOL_put_var_def SMIOL_get_var_def var_hyperslab_def
  SMIOL_inquire_var_def SMIOL_inquire_dim_def slab_body_def io_buf_dsize_def dsize_of_def
  element_size_def to_size_t_def put_var_store_def leave_define_mode_def deref_file_def
  deref_decomp_def xtype_to_vartype_def PNETCDF_DEFINE_MODE_def PNETCDF_DATA_MODE_def

lemma example_put_var:
  "SMIOL_put_var example_file_env example_file_heap (Some 2) (Some 3) (Some ''theta'') True =
     Inr (SMIOL_SUCCESS, example_file_heap,
          [Transfer_field 3 SMIOL_COMP_TO_IO 12 Caller_buf Io_buf,
           Put_vara_all 10 5 [8, 0] [8, 3] Io_buf])"
  by (simp add: file_example_simps upt_rec)

lemma example_get_var:
  "SMIOL_get_var example_file_env example_file_heap (Some 2) (Some 3) (Some ''theta'') True =
     Inr (Code SMIOL_SUCCESS, example_file_heap,
          [Get_vara_all 10 5 [8, 0] [8, 3] Io_buf,
           Transfer_field 3 SMIOL_IO_TO_COMP 12 Io_buf Caller_buf])"
  by (simp add: file_example_simps upt_rec)

text \<open>
  C6. With a decomposition supplied, the calls by which \<open>SMIOL_put_var\<close> moves data are, in
  this order, one \<^verbatim>\<open>transfer_field\<close> in the direction \<^verbatim>\<open>SMIOL_COMP_TO_IO\<close> from the caller's
  buffer to the I/O buffer and one \<^verbatim>\<open>ncmpi_put_vara_all\<close> of the I/O buffer whose
  \<^verbatim>\<open>start[0]\<close> and \<^verbatim>\<open>count[0]\<close> are the \<^verbatim>\<open>io_start\<close> and \<^verbatim>\<open>io_count\<close> of the decomposition;
  a run that returns early makes a prefix of these calls, and a run that returns
  \<open>SMIOL_SUCCESS\<close> in a build with the library makes both. The calls of \<open>SMIOL_get_var\<close>
  are one \<^verbatim>\<open>ncmpi_get_vara_all\<close> into the I/O buffer with the same \<^verbatim>\<open>start[0]\<close> and
  \<^verbatim>\<open>count[0]\<close>, followed by one \<^verbatim>\<open>transfer_field\<close> in the direction \<^verbatim>\<open>SMIOL_IO_TO_COMP\<close>
  from the I/O buffer to the caller's buffer.
\<close>

theorem put_get_var_decomposed_hyperslab:
  assumes d: "h da = Some (Decomp_block d)"
  shows "(SMIOL_put_var be h file (Some da) varname buf = Inr (rc, h1, tr) \<longrightarrow>
            (tr = [] \<and> (pnetcdf be \<longrightarrow> rc \<noteq> SMIOL_SUCCESS))
          \<or> (\<exists>es. tr = [Transfer_field da SMIOL_COMP_TO_IO es Caller_buf Io_buf] \<and> rc \<noteq> SMIOL_SUCCESS)
          \<or> (\<exists>es ncid varid st ct.
                tr = [Transfer_field da SMIOL_COMP_TO_IO es Caller_buf Io_buf,
                      Put_vara_all ncid varid (io_start d # st) (io_count d # ct) Io_buf]))
       \<and> (SMIOL_get_var be h file (Some da) varname buf = Inr (rv, h2, tr2) \<longrightarrow>
            (tr2 = [] \<and> (pnetcdf be \<longrightarrow> rv \<noteq> Code SMIOL_SUCCESS))
          \<or> (\<exists>ncid varid st ct.
                tr2 = [Get_vara_all ncid varid (io_start d # st) (io_count d # ct) Io_buf]
              \<and> rv \<noteq> Code SMIOL_SUCCESS)
          \<or> (\<exists>es ncid varid st ct.
                tr2 = [Get_vara_all ncid varid (io_start d # st) (io_count d # ct) Io_buf,
                       Transfer_field da SMIOL_IO_TO_COMP es Io_buf Caller_buf]))"
proof (intro conjI impI)
  assume run: "SMIOL_put_var be h file (Some da) varname buf = Inr (rc, h1, tr)"
  from put_var_cases [OF run]
  consider "tr = [] \<and> (pnetcdf be \<longrightarrow> rc \<noteq> SMIOL_SUCCESS)"
    | vartype s dsize where "var_hyperslab be h file (Some da) varname = Inr (Inr (vartype, s))"
        "io_buf_dsize be vartype s = Inr dsize"
        "(tr = [Transfer_field da SMIOL_COMP_TO_IO (element_size be dsize (slab_inner s)) Caller_buf Io_buf]
                \<and> rc \<noteq> SMIOL_SUCCESS)
              \<or> (\<exists>ncid varid.
                    tr = [Transfer_field da SMIOL_COMP_TO_IO (element_size be dsize (slab_inner s)) Caller_buf Io_buf,
                          Put_vara_all ncid varid (slab_start s) (slab_count s) Io_buf])"
    by blast
  then show "(tr = [] \<and> (pnetcdf be \<longrightarrow> rc \<noteq> SMIOL_SUCCESS))
          \<or> (\<exists>es. tr = [Transfer_field da SMIOL_COMP_TO_IO es Caller_buf Io_buf] \<and> rc \<noteq> SMIOL_SUCCESS)
          \<or> (\<exists>es ncid varid st ct.
                tr = [Transfer_field da SMIOL_COMP_TO_IO es Caller_buf Io_buf,
                      Put_vara_all ncid varid (io_start d # st) (io_count d # ct) Io_buf])"
  proof cases
    case 1
    then show ?thesis by simp
  next
    case 2
    have "slab_count s \<noteq> []"
      using 2(2) by (rule io_buf_dsize_count)
    with var_hyperslab_decomp [where h=h and da=da and d=d, OF d 2(1)]
    obtain st ct where "slab_start s = io_start d # st" "slab_count s = io_count d # ct"
      by auto
    then show ?thesis
      using 2(3) by auto
  qed
next
  assume run: "SMIOL_get_var be h file (Some da) varname buf = Inr (rv, h2, tr2)"
  from get_var_cases [OF run]
  consider "tr2 = [] \<and> (pnetcdf be \<longrightarrow> rv \<noteq> Code SMIOL_SUCCESS)"
    | vartype s dsize ncid varid where "var_hyperslab be h file (Some da) varname = Inr (Inr (vartype, s))"
        "io_buf_dsize be vartype s = Inr dsize"
        "(tr2 = [Get_vara_all ncid varid (slab_start s) (slab_count s) Io_buf]
                \<and> rv \<noteq> Code SMIOL_SUCCESS)
              \<or> tr2 = [Get_vara_all ncid varid (slab_start s) (slab_count s) Io_buf,
                       Transfer_field da SMIOL_IO_TO_COMP (element_size be dsize (slab_inner s)) Io_buf Caller_buf]"
    by blast
  then show "(tr2 = [] \<and> (pnetcdf be \<longrightarrow> rv \<noteq> Code SMIOL_SUCCESS))
          \<or> (\<exists>ncid varid st ct.
                tr2 = [Get_vara_all ncid varid (io_start d # st) (io_count d # ct) Io_buf]
              \<and> rv \<noteq> Code SMIOL_SUCCESS)
          \<or> (\<exists>es ncid varid st ct.
                tr2 = [Get_vara_all ncid varid (io_start d # st) (io_count d # ct) Io_buf,
                       Transfer_field da SMIOL_IO_TO_COMP es Io_buf Caller_buf])"
  proof cases
    case 1
    then show ?thesis by simp
  next
    case 2
    have "slab_count s \<noteq> []"
      using 2(2) by (rule io_buf_dsize_count)
    with var_hyperslab_decomp [where h=h and da=da and d=d, OF d 2(1)]
    obtain st ct where "slab_start s = io_start d # st" "slab_count s = io_count d # ct"
      by auto
    then show ?thesis
      using 2(3) by auto
  qed
qed

theorem put_get_var_decomposed_hyperslab_witness:
  "example_file_heap 3 = Some (Decomp_block \<lparr>comp_list = None, io_list = None, io_start = 8, io_count = 8\<rparr>)
   \<and> SMIOL_put_var example_file_env example_file_heap (Some 2) (Some 3) (Some ''theta'') True =
       Inr (SMIOL_SUCCESS, example_file_heap,
            [Transfer_field 3 SMIOL_COMP_TO_IO 12 Caller_buf Io_buf,
             Put_vara_all 10 5 [8, 0] [8, 3] Io_buf])
   \<and> SMIOL_get_var example_file_env example_file_heap (Some 2) (Some 3) (Some ''theta'') True =
       Inr (Code SMIOL_SUCCESS, example_file_heap,
            [Get_vara_all 10 5 [8, 0] [8, 3] Io_buf,
             Transfer_field 3 SMIOL_IO_TO_COMP 12 Io_buf Caller_buf])"
proof -
  have d: "example_file_heap 3 = Some (Decomp_block \<lparr>comp_list = None, io_list = None, io_start = 8, io_count = 8\<rparr>)"
    by (simp add: example_file_heap_def)
  note shape = put_get_var_decomposed_hyperslab [where h = example_file_heap and da = 3, OF d]
  show ?thesis
    using d shape example_put_var example_get_var by simp
qed

end
